theory Spec2Isabelle
  imports Complex_Main "HOL-Library.Char_ord" "HOL-Library.List_Lexorder"
    "HOL-Library.Multiset"
begin

section \<open>The market-data tools of \<open>src/tools/stock_data_tool.py\<close>\<close>

text \<open>
  The file defines five tool functions. Each one calls the data provider for a table
  (a pandas DataFrame), filters or sorts it, builds a dictionary and returns
  \<open>json.dumps\<close> of it; the whole body stands in one \<open>try\<close> block whose
  \<open>except Exception\<close> branch returns \<open>json.dumps\<close> of a fixed dictionary.

  The embedding below follows the source line by line. What belongs to the libraries
  and not to this file is represented as follows.
  \<^item> A Python \<open>str\<close> is the list of the bytes of its UTF-8 encoding, so the
    literals of the source are written out as bytes. Byte-wise lexicographic order
    on UTF-8 is the code point order Python compares strings by.
  \<^item> A float is the rational number it denotes, or NaN; infinite values are not
    represented. A float literal of the source stands for the decimal it is written
    as. Comparisons are exact on these values;
    floating-point arithmetic (\<open>mean\<close>, \<open>sum\<close>, \<open>/\<close>, \<open>round\<close>) and the
    parsing of numbers from text are parameters of the model, collected in the
    record \<open>pylib\<close>.
  \<^item> A DataFrame is its list of column names and its list of rows; a row maps
    every column name to a cell, and only the cells of existing columns are read.
    A cell holds a number or text; pandas stores a missing number as NaN.
  \<^item> Every function first looks up the request context, which it never uses, and
    calls the provider. The outcome of these two statements is the argument
    \<open>fetch\<close> of the model: the exception one of them raised, or the table.
  \<^item> An exception is a value of type \<open>exn\<close>; code that may raise returns
    \<open>exn + 'a\<close>, with \<open>Inl\<close> for the exception.
  \<^item> The string that \<open>json.dumps\<close> returns is represented by the JSON value
    it encodes (objects keep the insertion order of the dictionary).
\<close>

section \<open>The string literals of the source\<close>

subsection \<open>Column names of the snapshot and of the sector table\<close>

text \<open>\<open>k_code\<close>: instrument code (U+4EE3 U+7801).\<close>

definition k_code :: string where
  "k_code = [CHR 0xE4, CHR 0xBB, CHR 0xA3, CHR 0xE7, CHR 0xA0, CHR 0x81]"

text \<open>\<open>k_name\<close>: instrument name (U+540D U+79F0).\<close>

definition k_name :: string where
  "k_name = [CHR 0xE5, CHR 0x90, CHR 0x8D, CHR 0xE7, CHR 0xA7, CHR 0xB0]"

text \<open>\<open>k_price\<close>: last price (U+6700 U+65B0 U+4EF7).\<close>

definition k_price :: string where
  "k_price = [CHR 0xE6, CHR 0x9C, CHR 0x80, CHR 0xE6, CHR 0x96, CHR 0xB0, CHR 0xE4,
     CHR 0xBB, CHR 0xB7]"

text \<open>\<open>k_pct\<close>: percent change (U+6DA8 U+8DCC U+5E45).\<close>

definition k_pct :: string where
  "k_pct = [CHR 0xE6, CHR 0xB6, CHR 0xA8, CHR 0xE8, CHR 0xB7, CHR 0x8C, CHR 0xE5, CHR 0xB9,
     CHR 0x85]"

text \<open>\<open>k_change\<close>: absolute change (U+6DA8 U+8DCC U+989D).\<close>

definition k_change :: string where
  "k_change = [CHR 0xE6, CHR 0xB6, CHR 0xA8, CHR 0xE8, CHR 0xB7, CHR 0x8C, CHR 0xE9,
     CHR 0xA2, CHR 0x9D]"

text \<open>\<open>k_volume\<close>: volume (U+6210 U+4EA4 U+91CF).\<close>

definition k_volume :: string where
  "k_volume = [CHR 0xE6, CHR 0x88, CHR 0x90, CHR 0xE4, CHR 0xBA, CHR 0xA4, CHR 0xE9,
     CHR 0x87, CHR 0x8F]"

text \<open>\<open>k_amount\<close>: turnover amount (U+6210 U+4EA4 U+989D).\<close>

definition k_amount :: string where
  "k_amount = [CHR 0xE6, CHR 0x88, CHR 0x90, CHR 0xE4, CHR 0xBA, CHR 0xA4, CHR 0xE9,
     CHR 0xA2, CHR 0x9D]"

text \<open>\<open>k_open\<close>: open (U+4ECA U+5F00).\<close>

definition k_open :: string where
  "k_open = [CHR 0xE4, CHR 0xBB, CHR 0x8A, CHR 0xE5, CHR 0xBC, CHR 0x80]"

text \<open>\<open>k_high\<close>: high (U+6700 U+9AD8).\<close>

definition k_high :: string where
  "k_high = [CHR 0xE6, CHR 0x9C, CHR 0x80, CHR 0xE9, CHR 0xAB, CHR 0x98]"

text \<open>\<open>k_low\<close>: low (U+6700 U+4F4E).\<close>

definition k_low :: string where
  "k_low = [CHR 0xE6, CHR 0x9C, CHR 0x80, CHR 0xE4, CHR 0xBD, CHR 0x8E]"

text \<open>\<open>k_prev_close\<close>: previous close (U+6628 U+6536).\<close>

definition k_prev_close :: string where
  "k_prev_close = [CHR 0xE6, CHR 0x98, CHR 0xA8, CHR 0xE6, CHR 0x94, CHR 0xB6]"

text \<open>\<open>k_turnover_rate\<close>: turnover rate (U+6362 U+624B U+7387).\<close>

definition k_turnover_rate :: string where
  "k_turnover_rate = [CHR 0xE6, CHR 0x8D, CHR 0xA2, CHR 0xE6, CHR 0x89, CHR 0x8B, CHR 0xE7,
     CHR 0x8E, CHR 0x87]"

text \<open>\<open>k_pe\<close>: price/earnings (U+5E02 U+76C8 U+7387).\<close>

definition k_pe :: string where
  "k_pe = [CHR 0xE5, CHR 0xB8, CHR 0x82, CHR 0xE7, CHR 0x9B, CHR 0x88, CHR 0xE7, CHR 0x8E,
     CHR 0x87]"

text \<open>\<open>k_pb\<close>: price/book (U+5E02 U+51C0 U+7387).\<close>

definition k_pb :: string where
  "k_pb = [CHR 0xE5, CHR 0xB8, CHR 0x82, CHR 0xE5, CHR 0x87, CHR 0x80, CHR 0xE7, CHR 0x8E,
     CHR 0x87]"

text \<open>\<open>k_total_cap\<close>: total market capitalisation (U+603B U+5E02 U+503C).\<close>

definition k_total_cap :: string where
  "k_total_cap = [CHR 0xE6, CHR 0x80, CHR 0xBB, CHR 0xE5, CHR 0xB8, CHR 0x82, CHR 0xE5,
     CHR 0x80, CHR 0xBC]"

text \<open>\<open>k_float_cap\<close>: float market capitalisation (U+6D41 U+901A U+5E02 U+503C).\<close>

definition k_float_cap :: string where
  "k_float_cap = [CHR 0xE6, CHR 0xB5, CHR 0x81, CHR 0xE9, CHR 0x80, CHR 0x9A, CHR 0xE5,
     CHR 0xB8, CHR 0x82, CHR 0xE5, CHR 0x80, CHR 0xBC]"

text \<open>\<open>k_sector_name\<close>: sector name (U+677F U+5757 U+540D U+79F0).\<close>

definition k_sector_name :: string where
  "k_sector_name = [CHR 0xE6, CHR 0x9D, CHR 0xBF, CHR 0xE5, CHR 0x9D, CHR 0x97, CHR 0xE5,
     CHR 0x90, CHR 0x8D, CHR 0xE7, CHR 0xA7, CHR 0xB0]"

text \<open>\<open>k_up_count\<close>: number of advancing constituents (U+4E0A U+6DA8 U+5BB6 U+6570).\<close>

definition k_up_count :: string where
  "k_up_count = [CHR 0xE4, CHR 0xB8, CHR 0x8A, CHR 0xE6, CHR 0xB6, CHR 0xA8, CHR 0xE5,
     CHR 0xAE, CHR 0xB6, CHR 0xE6, CHR 0x95, CHR 0xB0]"

text \<open>\<open>k_down_count\<close>: number of declining constituents (U+4E0B U+8DCC U+5BB6 U+6570).\<close>

definition k_down_count :: string where
  "k_down_count = [CHR 0xE4, CHR 0xB8, CHR 0x8B, CHR 0xE8, CHR 0xB7, CHR 0x8C, CHR 0xE5,
     CHR 0xAE, CHR 0xB6, CHR 0xE6, CHR 0x95, CHR 0xB0]"

subsection \<open>Names of the four indices\<close>

text \<open>\<open>n_sse\<close>: Shanghai composite index (U+4E0A U+8BC1 U+6307 U+6570).\<close>

definition n_sse :: string where
  "n_sse = [CHR 0xE4, CHR 0xB8, CHR 0x8A, CHR 0xE8, CHR 0xAF, CHR 0x81, CHR 0xE6, CHR 0x8C,
     CHR 0x87, CHR 0xE6, CHR 0x95, CHR 0xB0]"

text \<open>\<open>n_szse\<close>: Shenzhen component index (U+6DF1 U+8BC1 U+6210 U+6307).\<close>

definition n_szse :: string where
  "n_szse = [CHR 0xE6, CHR 0xB7, CHR 0xB1, CHR 0xE8, CHR 0xAF, CHR 0x81, CHR 0xE6,
     CHR 0x88, CHR 0x90, CHR 0xE6, CHR 0x8C, CHR 0x87]"

text \<open>\<open>n_chinext\<close>: ChiNext index (U+521B U+4E1A U+677F U+6307).\<close>

definition n_chinext :: string where
  "n_chinext = [CHR 0xE5, CHR 0x88, CHR 0x9B, CHR 0xE4, CHR 0xB8, CHR 0x9A, CHR 0xE6,
     CHR 0x9D, CHR 0xBF, CHR 0xE6, CHR 0x8C, CHR 0x87]"

text \<open>\<open>n_star50\<close>: STAR 50 index (U+79D1 U+521B U+0035 U+0030).\<close>

definition n_star50 :: string where
  "n_star50 = [CHR 0xE7, CHR 0xA7, CHR 0x91, CHR 0xE5, CHR 0x88, CHR 0x9B, CHR 0x35,
     CHR 0x30]"

subsection \<open>Section names of the result documents\<close>

text \<open>\<open>k_gainers\<close>: gainers ranking (U+6DA8 U+5E45 U+699C).\<close>

definition k_gainers :: string where
  "k_gainers = [CHR 0xE6, CHR 0xB6, CHR 0xA8, CHR 0xE5, CHR 0xB9, CHR 0x85, CHR 0xE6,
     CHR 0xA6, CHR 0x9C]"

text \<open>\<open>k_losers\<close>: losers ranking (U+8DCC U+5E45 U+699C).\<close>

definition k_losers :: string where
  "k_losers = [CHR 0xE8, CHR 0xB7, CHR 0x8C, CHR 0xE5, CHR 0xB9, CHR 0x85, CHR 0xE6,
     CHR 0xA6, CHR 0x9C]"

text \<open>\<open>k_limit_stats\<close>: limit-up and limit-down statistics (U+6DA8 U+8DCC U+505C U+7EDF U+8BA1).\<close>

definition k_limit_stats :: string where
  "k_limit_stats = [CHR 0xE6, CHR 0xB6, CHR 0xA8, CHR 0xE8, CHR 0xB7, CHR 0x8C, CHR 0xE5,
     CHR 0x81, CHR 0x9C, CHR 0xE7, CHR 0xBB, CHR 0x9F, CHR 0xE8, CHR 0xAE, CHR 0xA1]"

text \<open>\<open>k_limit_up\<close>: number of limit-up instruments (U+6DA8 U+505C U+5BB6 U+6570).\<close>

definition k_limit_up :: string where
  "k_limit_up = [CHR 0xE6, CHR 0xB6, CHR 0xA8, CHR 0xE5, CHR 0x81, CHR 0x9C, CHR 0xE5,
     CHR 0xAE, CHR 0xB6, CHR 0xE6, CHR 0x95, CHR 0xB0]"

text \<open>\<open>k_limit_down\<close>: number of limit-down instruments (U+8DCC U+505C U+5BB6 U+6570).\<close>

definition k_limit_down :: string where
  "k_limit_down = [CHR 0xE8, CHR 0xB7, CHR 0x8C, CHR 0xE5, CHR 0x81, CHR 0x9C, CHR 0xE5,
     CHR 0xAE, CHR 0xB6, CHR 0xE6, CHR 0x95, CHR 0xB0]"

text \<open>\<open>k_adv_dec\<close>: advancing and declining counts (U+6DA8 U+8DCC U+5BB6 U+6570).\<close>

definition k_adv_dec :: string where
  "k_adv_dec = [CHR 0xE6, CHR 0xB6, CHR 0xA8, CHR 0xE8, CHR 0xB7, CHR 0x8C, CHR 0xE5,
     CHR 0xAE, CHR 0xB6, CHR 0xE6, CHR 0x95, CHR 0xB0]"

text \<open>\<open>k_flat_count\<close>: number of flat instruments (U+5E73 U+76D8 U+5BB6 U+6570).\<close>

definition k_flat_count :: string where
  "k_flat_count = [CHR 0xE5, CHR 0xB9, CHR 0xB3, CHR 0xE7, CHR 0x9B, CHR 0x98, CHR 0xE5,
     CHR 0xAE, CHR 0xB6, CHR 0xE6, CHR 0x95, CHR 0xB0]"

text \<open>\<open>k_market_perf\<close>: market performance (U+5E02 U+573A U+8868 U+73B0).\<close>

definition k_market_perf :: string where
  "k_market_perf = [CHR 0xE5, CHR 0xB8, CHR 0x82, CHR 0xE5, CHR 0x9C, CHR 0xBA, CHR 0xE8,
     CHR 0xA1, CHR 0xA8, CHR 0xE7, CHR 0x8E, CHR 0xB0]"

text \<open>\<open>k_avg_pct\<close>: mean percent change (U+5E73 U+5747 U+6DA8 U+8DCC U+5E45).\<close>

definition k_avg_pct :: string where
  "k_avg_pct = [CHR 0xE5, CHR 0xB9, CHR 0xB3, CHR 0xE5, CHR 0x9D, CHR 0x87, CHR 0xE6,
     CHR 0xB6, CHR 0xA8, CHR 0xE8, CHR 0xB7, CHR 0x8C, CHR 0xE5, CHR 0xB9, CHR 0x85]"

text \<open>\<open>k_total_amount\<close>: total turnover amount (U+603B U+6210 U+4EA4 U+989D).\<close>

definition k_total_amount :: string where
  "k_total_amount = [CHR 0xE6, CHR 0x80, CHR 0xBB, CHR 0xE6, CHR 0x88, CHR 0x90, CHR 0xE4,
     CHR 0xBA, CHR 0xA4, CHR 0xE9, CHR 0xA2, CHR 0x9D]"

text \<open>\<open>k_total_count\<close>: total number of instruments (U+80A1 U+7968 U+603B U+6570).\<close>

definition k_total_count :: string where
  "k_total_count = [CHR 0xE8, CHR 0x82, CHR 0xA1, CHR 0xE7, CHR 0xA5, CHR 0xA8, CHR 0xE6,
     CHR 0x80, CHR 0xBB, CHR 0xE6, CHR 0x95, CHR 0xB0]"

text \<open>\<open>k_best_sectors\<close>: best sectors (U+8868 U+73B0 U+6700 U+597D U+7684 U+677F U+5757).\<close>

definition k_best_sectors :: string where
  "k_best_sectors = [CHR 0xE8, CHR 0xA1, CHR 0xA8, CHR 0xE7, CHR 0x8E, CHR 0xB0, CHR 0xE6,
     CHR 0x9C, CHR 0x80, CHR 0xE5, CHR 0xA5, CHR 0xBD, CHR 0xE7, CHR 0x9A, CHR 0x84,
     CHR 0xE6, CHR 0x9D, CHR 0xBF, CHR 0xE5, CHR 0x9D, CHR 0x97]"

text \<open>\<open>k_worst_sectors\<close>: worst sectors (U+8868 U+73B0 U+6700 U+5DEE U+7684 U+677F U+5757).\<close>

definition k_worst_sectors :: string where
  "k_worst_sectors = [CHR 0xE8, CHR 0xA1, CHR 0xA8, CHR 0xE7, CHR 0x8E, CHR 0xB0, CHR 0xE6,
     CHR 0x9C, CHR 0x80, CHR 0xE5, CHR 0xB7, CHR 0xAE, CHR 0xE7, CHR 0x9A, CHR 0x84,
     CHR 0xE6, CHR 0x9D, CHR 0xBF, CHR 0xE5, CHR 0x9D, CHR 0x97]"

subsection \<open>Fixed string values\<close>

text \<open>\<open>v_no_data\<close>: no data (U+6682 U+65E0 U+6570 U+636E).\<close>

definition v_no_data :: string where
  "v_no_data = [CHR 0xE6, CHR 0x9A, CHR 0x82, CHR 0xE6, CHR 0x97, CHR 0xA0, CHR 0xE6,
     CHR 0x95, CHR 0xB0, CHR 0xE6, CHR 0x8D, CHR 0xAE]"

text \<open>\<open>v_demo_data\<close>: demonstration data (U+6F14 U+793A U+6570 U+636E).\<close>

definition v_demo_data :: string where
  "v_demo_data = [CHR 0xE6, CHR 0xBC, CHR 0x94, CHR 0xE7, CHR 0xA4, CHR 0xBA, CHR 0xE6,
     CHR 0x95, CHR 0xB0, CHR 0xE6, CHR 0x8D, CHR 0xAE]"

text \<open>\<open>v_sample_stock\<close>: sample stock (U+793A U+4F8B U+80A1 U+7968).\<close>

definition v_sample_stock :: string where
  "v_sample_stock = [CHR 0xE7, CHR 0xA4, CHR 0xBA, CHR 0xE4, CHR 0xBE, CHR 0x8B, CHR 0xE8,
     CHR 0x82, CHR 0xA1, CHR 0xE7, CHR 0xA5, CHR 0xA8]"

text \<open>\<open>v_not_found\<close>: prefix of the not-found message (U+672A U+627E U+5230 U+80A1 U+7968 U+4EE3 U+7801 U+003A U+0020).\<close>

definition v_not_found :: string where
  "v_not_found = [CHR 0xE6, CHR 0x9C, CHR 0xAA, CHR 0xE6, CHR 0x89, CHR 0xBE, CHR 0xE5,
     CHR 0x88, CHR 0xB0, CHR 0xE8, CHR 0x82, CHR 0xA1, CHR 0xE7, CHR 0xA5, CHR 0xA8,
     CHR 0xE4, CHR 0xBB, CHR 0xA3, CHR 0xE7, CHR 0xA0, CHR 0x81, CHR 0x3A, CHR 0x20]"

text \<open>\<open>v_lanhua\<close>: placeholder name, line 160 (U+5170 U+82B1 U+79D1 U+521B).\<close>

definition v_lanhua :: string where
  "v_lanhua = [CHR 0xE5, CHR 0x85, CHR 0xB0, CHR 0xE8, CHR 0x8A, CHR 0xB1, CHR 0xE7,
     CHR 0xA7, CHR 0x91, CHR 0xE5, CHR 0x88, CHR 0x9B]"

text \<open>\<open>v_ofilm\<close>: placeholder name, line 161 (U+6B27 U+83F2 U+5149).\<close>

definition v_ofilm :: string where
  "v_ofilm = [CHR 0xE6, CHR 0xAC, CHR 0xA7, CHR 0xE8, CHR 0x8F, CHR 0xB2, CHR 0xE5,
     CHR 0x85, CHR 0x89]"

text \<open>\<open>v_saiwei\<close>: placeholder name, line 164 (U+8D5B U+5FAE U+7535 U+5B50).\<close>

definition v_saiwei :: string where
  "v_saiwei = [CHR 0xE8, CHR 0xB5, CHR 0x9B, CHR 0xE5, CHR 0xBE, CHR 0xAE, CHR 0xE7,
     CHR 0x94, CHR 0xB5, CHR 0xE5, CHR 0xAD, CHR 0x90]"

text \<open>\<open>v_lukang\<close>: placeholder name, line 165 (U+9C81 U+6297 U+533B U+836F).\<close>

definition v_lukang :: string where
  "v_lukang = [CHR 0xE9, CHR 0xB2, CHR 0x81, CHR 0xE6, CHR 0x8A, CHR 0x97, CHR 0xE5,
     CHR 0x8C, CHR 0xBB, CHR 0xE8, CHR 0x8D, CHR 0xAF]"

text \<open>\<open>v_ai_apps\<close>: placeholder sector, line 298 (U+0041 U+0049 U+5E94 U+7528).\<close>

definition v_ai_apps :: string where
  "v_ai_apps = [CHR 0x41, CHR 0x49, CHR 0xE5, CHR 0xBA, CHR 0x94, CHR 0xE7, CHR 0x94,
     CHR 0xA8]"

text \<open>\<open>v_semiconductor\<close>: placeholder sector, line 299 (U+534A U+5BFC U+4F53).\<close>

definition v_semiconductor :: string where
  "v_semiconductor = [CHR 0xE5, CHR 0x8D, CHR 0x8A, CHR 0xE5, CHR 0xAF, CHR 0xBC, CHR 0xE4,
     CHR 0xBD, CHR 0x93]"

text \<open>\<open>v_real_estate\<close>: placeholder sector, line 302 (U+623F U+5730 U+4EA7).\<close>

definition v_real_estate :: string where
  "v_real_estate = [CHR 0xE6, CHR 0x88, CHR 0xBF, CHR 0xE5, CHR 0x9C, CHR 0xB0, CHR 0xE4,
     CHR 0xBA, CHR 0xA7]"

text \<open>\<open>v_banks\<close>: placeholder sector, line 303 (U+94F6 U+884C).\<close>

definition v_banks :: string where
  "v_banks = [CHR 0xE9, CHR 0x93, CHR 0xB6, CHR 0xE8, CHR 0xA1, CHR 0x8C]"

lemmas str_defs =
  k_code_def k_name_def k_price_def k_pct_def k_change_def k_volume_def k_amount_def 
  k_open_def k_high_def k_low_def k_prev_close_def k_turnover_rate_def k_pe_def k_pb_def 
  k_total_cap_def k_float_cap_def k_sector_name_def k_up_count_def k_down_count_def 
  n_sse_def n_szse_def n_chinext_def n_star50_def k_gainers_def k_losers_def 
  k_limit_stats_def k_limit_up_def k_limit_down_def k_adv_dec_def k_flat_count_def 
  k_market_perf_def k_avg_pct_def k_total_amount_def k_total_count_def k_best_sectors_def 
  k_worst_sectors_def v_no_data_def v_demo_data_def v_sample_stock_def v_not_found_def 
  v_lanhua_def v_ofilm_def v_saiwei_def v_lukang_def v_ai_apps_def v_semiconductor_def 
  v_real_estate_def v_banks_def
section \<open>Values, tables and exceptions\<close>

datatype pyfloat = Finite rat | NaN

text \<open>A cell of a table holds a number (a float, possibly NaN) or text.\<close>

datatype cell = CNum pyfloat | CStr string

type_synonym row = "string \<Rightarrow> cell"

record frame =
  columns :: "string list"
  rows :: "row list"

datatype exn = KeyError string | TypeError | ValueError | Failure string

datatype json =
    JStr string
  | JInt int
  | JFloat pyfloat
  | JArr "json list"
  | JObj "(string \<times> json) list"

text \<open>
  Every function returns a \<open>str\<close>: either \<open>json.dumps\<close> of a dictionary or,
  at line 329, a formatted message.
\<close>

datatype response = Json json | Plain string

text \<open>
  The library primitives that are not modelled: \<open>float(s)\<close> and \<open>int(s)\<close> on a
  string (\<open>None\<close> is \<open>ValueError\<close>), \<open>Series.mean()\<close> and \<open>Series.sum()\<close>,
  float division, \<open>round(x, n)\<close>, and \<open>str(e)\<close> on an exception.
\<close>

record pylib =
  str_to_float :: "string \<Rightarrow> pyfloat option"
  str_to_int :: "string \<Rightarrow> int option"
  series_mean :: "cell list \<Rightarrow> exn + pyfloat"
  series_sum :: "cell list \<Rightarrow> exn + pyfloat"
  truediv :: "pyfloat \<Rightarrow> pyfloat \<Rightarrow> pyfloat"
  round_nd :: "pyfloat \<Rightarrow> nat \<Rightarrow> pyfloat"
  exn_str :: "exn \<Rightarrow> string"

subsection \<open>Sequencing code that may raise\<close>

definition ebind :: "'e + 'a \<Rightarrow> ('a \<Rightarrow> 'e + 'b) \<Rightarrow> 'e + 'b" where
  "ebind m f = (case m of Inl e \<Rightarrow> Inl e | Inr x \<Rightarrow> f x)"

text \<open>A \<open>for\<close> loop that builds a list and stops at the first exception.\<close>

fun emap :: "('a \<Rightarrow> 'e + 'b) \<Rightarrow> 'a list \<Rightarrow> 'e + 'b list" where
  "emap f [] = Inr []"
| "emap f (x # xs) = ebind (f x) (\<lambda>y. ebind (emap f xs) (\<lambda>ys. Inr (y # ys)))"

subsection \<open>Python and pandas primitives\<close>

text \<open>\<open>float(x)\<close>: a number is kept, text is parsed.\<close>

definition py_float :: "pylib \<Rightarrow> cell \<Rightarrow> exn + pyfloat" where
  "py_float L c =
     (case c of
        CNum x \<Rightarrow> Inr x
      | CStr s \<Rightarrow> (case str_to_float L s of None \<Rightarrow> Inl ValueError | Some x \<Rightarrow> Inr x))"

text \<open>\<open>int(x)\<close>: a number is truncated towards zero, NaN raises, text is parsed.\<close>

definition trunc :: "rat \<Rightarrow> int" where
  "trunc q = (if 0 \<le> q then \<lfloor>q\<rfloor> else \<lceil>q\<rceil>)"

definition py_int :: "pylib \<Rightarrow> cell \<Rightarrow> exn + int" where
  "py_int L c =
     (case c of
        CNum (Finite q) \<Rightarrow> Inr (trunc q)
      | CNum NaN \<Rightarrow> Inl ValueError
      | CStr s \<Rightarrow> (case str_to_int L s of None \<Rightarrow> Inl ValueError | Some i \<Rightarrow> Inr i))"

text \<open>A cell that is put into the dictionary as it is (\<open>row['...']\<close> without \<open>float\<close>).\<close>

definition json_of_cell :: "cell \<Rightarrow> json" where
  "json_of_cell c = (case c of CNum x \<Rightarrow> JFloat x | CStr s \<Rightarrow> JStr s)"

text \<open>\<open>df[c]\<close>: the column, \<open>KeyError\<close> when the table has no such column.\<close>

definition getitem :: "frame \<Rightarrow> string \<Rightarrow> exn + cell list" where
  "getitem df c =
     (if c \<in> set (columns df) then Inr (map (\<lambda>r. r c) (rows df)) else Inl (KeyError c))"

text \<open>\<open>df[mask]\<close>: the rows at which the boolean mask \<open>bs\<close> is true.\<close>

definition boolean_index :: "frame \<Rightarrow> bool list \<Rightarrow> frame" where
  "boolean_index df bs = df\<lparr>rows := map snd (filter fst (zip bs (rows df)))\<rparr>"

text \<open>\<open>x == s\<close> for a string \<open>s\<close>: false on a number, never an exception.\<close>

definition eq_str :: "cell \<Rightarrow> string \<Rightarrow> bool" where
  "eq_str c s = (case c of CStr t \<Rightarrow> t = s | CNum x \<Rightarrow> False)"

text \<open>\<open>idx.get(c, d)\<close> on the row \<open>idx\<close> of the table \<open>df\<close>.\<close>

definition series_get :: "frame \<Rightarrow> row \<Rightarrow> string \<Rightarrow> cell \<Rightarrow> cell" where
  "series_get df idx c d = (if c \<in> set (columns df) then idx c else d)"

text \<open>\<open>idx[c]\<close> on a row: \<open>KeyError\<close> when the table has no such column.\<close>

definition series_getitem :: "frame \<Rightarrow> row \<Rightarrow> string \<Rightarrow> exn + cell" where
  "series_getitem df idx c = (if c \<in> set (columns df) then Inr (idx c) else Inl (KeyError c))"

text \<open>Looking a key up in a JSON object, and following a path of keys.\<close>

definition jget :: "string \<Rightarrow> json \<Rightarrow> json option" where
  "jget k j = (case j of JObj kvs \<Rightarrow> map_of kvs k | _ \<Rightarrow> None)"

fun jpath :: "string list \<Rightarrow> json \<Rightarrow> json option" where
  "jpath [] j = Some j"
| "jpath (k # ks) j = (case jget k j of None \<Rightarrow> None | Some v \<Rightarrow> jpath ks v)"

definition jkeys :: "json \<Rightarrow> string list" where
  "jkeys j = (case j of JObj kvs \<Rightarrow> map fst kvs | _ \<Rightarrow> [])"

section \<open>\<open>get_stock_index_data\<close> (lines 12 to 101)\<close>

definition indices :: "(string \<times> string) list" where
  "indices = [(n_sse, ''000001''), (n_szse, ''399001''), (n_chinext, ''399006''),
     (n_star50, ''000688'')]"

text \<open>The body of the loop at lines 35 to 57, for one index code.\<close>

definition index_entry :: "pylib \<Rightarrow> frame \<Rightarrow> string \<Rightarrow> exn + json" where
  "index_entry L df code =
     ebind (getitem df k_code) (\<lambda>col.
       case rows (boolean_index df (map (\<lambda>c. eq_str c code) col)) of
         idx # rest \<Rightarrow>
           ebind (py_float L (series_get df idx k_price (CNum (Finite 0)))) (\<lambda>price.
           ebind (py_float L (series_get df idx k_pct (CNum (Finite 0)))) (\<lambda>pct.
           ebind (py_float L (series_get df idx k_change (CNum (Finite 0)))) (\<lambda>change.
           ebind (py_float L (series_get df idx k_volume (CNum (Finite 0)))) (\<lambda>volume.
           ebind (py_float L (series_get df idx k_amount (CNum (Finite 0)))) (\<lambda>amount.
             Inr (JObj [(k_code, JStr code), (k_price, JFloat price), (k_pct, JFloat pct),
               (k_change, JFloat change), (k_volume, JFloat volume),
               (k_amount, JFloat amount)]))))))
       | [] \<Rightarrow>
           Inr (JObj [(k_code, JStr code), (k_price, JInt 0), (k_pct, JInt 0),
             (k_change, JInt 0), (k_volume, JInt 0), (k_amount, JInt 0),
             (''note'', JStr v_no_data)]))"

text \<open>The \<open>try\<close> block, lines 20 to 59; \<open>fetch\<close> is the outcome of lines 21 to 24.\<close>

definition get_stock_index_data_try :: "pylib \<Rightarrow> exn + frame \<Rightarrow> exn + json" where
  "get_stock_index_data_try L fetch =
     ebind fetch (\<lambda>df.
     ebind (emap (\<lambda>(name, code). ebind (index_entry L df code) (\<lambda>j. Inr (name, j))) indices)
       (\<lambda>result. Inr (JObj result)))"

text \<open>The dictionary of the \<open>except\<close> branch, lines 63 to 101; \<open>msg\<close> is \<open>str(e)\<close>.\<close>

definition get_stock_index_data_except :: "string \<Rightarrow> json" where
  "get_stock_index_data_except msg =
     JObj [
       (n_sse, JObj [(k_code, JStr ''000001''), (k_price, JFloat (Finite (308515 / 100))),
          (k_pct, JFloat (Finite (52 / 100))), (k_change, JFloat (Finite (1593 / 100))),
          (k_volume, JInt 125680000), (k_amount, JInt 158965000000),
          (''note'', JStr v_demo_data)]),
       (n_szse, JObj [(k_code, JStr ''399001''), (k_price, JFloat (Finite (985678 / 100))),
          (k_pct, JFloat (Finite (78 / 100))), (k_change, JFloat (Finite (7623 / 100))),
          (k_volume, JInt 234567000), (k_amount, JInt 345678000000),
          (''note'', JStr v_demo_data)]),
       (n_chinext, JObj [(k_code, JStr ''399006''), (k_price, JFloat (Finite (195689 / 100))),
          (k_pct, JFloat (Finite (- 23 / 100))), (k_change, JFloat (Finite (- 451 / 100))),
          (k_volume, JInt 98765400), (k_amount, JInt 123456000000),
          (''note'', JStr v_demo_data)]),
       (n_star50, JObj [(k_code, JStr ''000688''), (k_price, JFloat (Finite (89245 / 100))),
          (k_pct, JFloat (Finite (125 / 100))), (k_change, JFloat (Finite (1102 / 100))),
          (k_volume, JInt 45678900), (k_amount, JInt 67890000000),
          (''note'', JStr v_demo_data)]),
       (''error'', JStr msg)]"

definition get_stock_index_data :: "pylib \<Rightarrow> exn + frame \<Rightarrow> response" where
  "get_stock_index_data L fetch =
     (case get_stock_index_data_try L fetch of
        Inr result \<Rightarrow> Json result
      | Inl e \<Rightarrow> Json (get_stock_index_data_except (exn_str L e)))"


section \<open>Sorting a table: \<open>sort_values\<close>, \<open>head\<close>, \<open>tail\<close>\<close>

text \<open>
  pandas sorts a table by one column in two steps: it computes the positions of the rows
  in sorted order (\<open>nargsort\<close>) and then takes the rows at those positions. Missing
  values (NaN) are put last, whether the order is ascending or descending. The other
  keys must be all numbers or all text, since Python does not compare a number with a
  string. The order of rows with equal keys is not fixed by pandas (the default sort is
  not stable); the model keeps them in table order, and nothing below depends on it.
\<close>

definition isna :: "cell \<Rightarrow> bool" where
  "isna c = (case c of CNum NaN \<Rightarrow> True | _ \<Rightarrow> False)"

definition is_num :: "cell \<Rightarrow> bool" where
  "is_num c = (case c of CNum x \<Rightarrow> True | CStr s \<Rightarrow> False)"

definition is_str :: "cell \<Rightarrow> bool" where
  "is_str c = (case c of CNum x \<Rightarrow> False | CStr s \<Rightarrow> True)"

definition num_key :: "cell \<Rightarrow> rat" where
  "num_key c = (case c of CNum (Finite q) \<Rightarrow> q | _ \<Rightarrow> 0)"

definition str_key :: "cell \<Rightarrow> string" where
  "str_key c = (case c of CStr s \<Rightarrow> s | _ \<Rightarrow> [])"

definition order_by :: "('a \<Rightarrow> 'k::linorder) \<Rightarrow> bool \<Rightarrow> 'a list \<Rightarrow> 'a list" where
  "order_by key ascending xs =
     (if ascending then sort_key key xs else rev (sort_key key (rev xs)))"

definition nargsort :: "cell list \<Rightarrow> bool \<Rightarrow> exn + nat list" where
  "nargsort items ascending =
     (let non_nan = filter (\<lambda>(i, c). \<not> isna c) (enumerate 0 items);
          nan_idx = map fst (filter (\<lambda>(i, c). isna c) (enumerate 0 items))
      in if list_all (\<lambda>(i, c). is_num c) non_nan
         then Inr (map fst (order_by (\<lambda>(i, c). num_key c) ascending non_nan) @ nan_idx)
         else if list_all (\<lambda>(i, c). is_str c) non_nan
         then Inr (map fst (order_by (\<lambda>(i, c). str_key c) ascending non_nan) @ nan_idx)
         else Inl TypeError)"

definition take_rows :: "frame \<Rightarrow> nat list \<Rightarrow> frame" where
  "take_rows df indexer = df\<lparr>rows := map (\<lambda>i. rows df ! i) indexer\<rparr>"

definition sort_values :: "frame \<Rightarrow> string \<Rightarrow> bool \<Rightarrow> exn + frame" where
  "sort_values df c ascending =
     ebind (getitem df c) (\<lambda>items.
     ebind (nargsort items ascending) (\<lambda>indexer. Inr (take_rows df indexer)))"

definition head :: "frame \<Rightarrow> nat \<Rightarrow> frame" where
  "head df n = df\<lparr>rows := take n (rows df)\<rparr>"

definition tail :: "frame \<Rightarrow> nat \<Rightarrow> frame" where
  "tail df n = df\<lparr>rows := drop (length (rows df) - n) (rows df)\<rparr>"

text \<open>\<open>df[cols]\<close> for a list of column names: \<open>KeyError\<close> when one is missing.\<close>

definition select_columns :: "frame \<Rightarrow> string list \<Rightarrow> exn + frame" where
  "select_columns df cols =
     (case filter (\<lambda>c. c \<notin> set (columns df)) cols of
        [] \<Rightarrow> Inr (df\<lparr>columns := cols\<rparr>)
      | c # missing \<Rightarrow> Inl (KeyError c))"

section \<open>\<open>get_stock_ranking\<close> (lines 104 to 169)\<close>

definition ranking_columns :: "string list" where
  "ranking_columns = [k_code, k_name, k_price, k_pct, k_change, k_volume, k_amount]"

text \<open>The dictionary appended for one row, lines 133 to 141 and 144 to 152.\<close>

definition ranking_entry :: "pylib \<Rightarrow> row \<Rightarrow> exn + json" where
  "ranking_entry L row =
     ebind (py_float L (row k_price)) (\<lambda>price.
     ebind (py_float L (row k_pct)) (\<lambda>pct.
     ebind (py_float L (row k_change)) (\<lambda>change.
     ebind (py_float L (row k_volume)) (\<lambda>volume.
     ebind (py_float L (row k_amount)) (\<lambda>amount.
       Inr (JObj [(k_code, json_of_cell (row k_code)), (k_name, json_of_cell (row k_name)),
         (k_price, JFloat price), (k_pct, JFloat pct), (k_change, JFloat change),
         (k_volume, JFloat volume), (k_amount, JFloat amount)]))))))"

definition get_stock_ranking_try :: "pylib \<Rightarrow> exn + frame \<Rightarrow> exn + json" where
  "get_stock_ranking_try L fetch =
     ebind fetch (\<lambda>df.
     ebind (sort_values df k_pct False) (\<lambda>sorted_desc.
     ebind (sort_values df k_pct True) (\<lambda>sorted_asc.
     ebind (select_columns (head sorted_desc 20) ranking_columns) (\<lambda>df_rise.
     ebind (emap (ranking_entry L) (rows df_rise)) (\<lambda>gainers.
     ebind (select_columns (head sorted_asc 20) ranking_columns) (\<lambda>df_fall.
     ebind (emap (ranking_entry L) (rows df_fall)) (\<lambda>losers.
       Inr (JObj [(k_gainers, JArr gainers), (k_losers, JArr losers)]))))))))"

definition demo_quote :: "string \<Rightarrow> string \<Rightarrow> rat \<Rightarrow> rat \<Rightarrow> rat \<Rightarrow> int \<Rightarrow> int \<Rightarrow> json" where
  "demo_quote code name price pct change volume amount =
     JObj [(k_code, JStr code), (k_name, JStr name), (k_price, JFloat (Finite price)),
       (k_pct, JFloat (Finite pct)), (k_change, JFloat (Finite change)),
       (k_volume, JInt volume), (k_amount, JInt amount)]"

definition get_stock_ranking_except :: "string \<Rightarrow> json" where
  "get_stock_ranking_except msg =
     JObj [
       (k_gainers, JArr [
          demo_quote ''600123'' v_lanhua (1568 / 100) (1005 / 100) (143 / 100)
            125680000 1589650000,
          demo_quote ''002456'' v_ofilm (1235 / 100) (998 / 100) (112 / 100)
            234567000 3456780000]),
       (k_losers, JArr [
          demo_quote ''300456'' v_saiwei (2345 / 100) (- 995 / 100) (- 259 / 100)
            98765400 1234560000,
          demo_quote ''600789'' v_lukang (892 / 100) (- 992 / 100) (- 98 / 100)
            45678900 678900000]),
       (''note'', JStr v_demo_data),
       (''error'', JStr msg)]"

definition get_stock_ranking :: "pylib \<Rightarrow> exn + frame \<Rightarrow> response" where
  "get_stock_ranking L fetch =
     (case get_stock_ranking_try L fetch of
        Inr result \<Rightarrow> Json result
      | Inl e \<Rightarrow> Json (get_stock_ranking_except (exn_str L e)))"

section \<open>\<open>get_market_statistics\<close> (lines 172 to 239)\<close>

text \<open>
  \<open>x >= v\<close> and the other order comparisons of a cell with a number: false on NaN,
  \<open>TypeError\<close> on text. \<open>x == v\<close> is false on NaN and on text.
\<close>

definition compare_num :: "(rat \<Rightarrow> bool) \<Rightarrow> cell \<Rightarrow> exn + bool" where
  "compare_num p c =
     (case c of
        CNum (Finite q) \<Rightarrow> Inr (p q)
      | CNum NaN \<Rightarrow> Inr False
      | CStr s \<Rightarrow> Inl TypeError)"

definition eq_num :: "rat \<Rightarrow> cell \<Rightarrow> exn + bool" where
  "eq_num v c = (case c of CNum (Finite q) \<Rightarrow> Inr (q = v) | _ \<Rightarrow> Inr False)"

text \<open>
  \<open>len(df[df[c] <op> v])\<close>, with \<open>p\<close> the comparison of one cell. The literal
  \<open>9.9\<close> of the source is the double nearest to 9.9, which lies just above it;
  a double is at least that double exactly when it is at least 9.9 (and at most its
  negation exactly when it is at most -9.9), so the thresholds below are the decimals.
\<close>

definition count_where :: "frame \<Rightarrow> string \<Rightarrow> (cell \<Rightarrow> exn + bool) \<Rightarrow> exn + nat" where
  "count_where df c p =
     ebind (getitem df c) (\<lambda>col.
     ebind (emap p col) (\<lambda>bs. Inr (length (rows (boolean_index df bs)))))"

definition get_market_statistics_try :: "pylib \<Rightarrow> exn + frame \<Rightarrow> exn + json" where
  "get_market_statistics_try L fetch =
     ebind fetch (\<lambda>df.
     ebind (count_where df k_pct (compare_num (\<lambda>q. q \<ge> 99 / 10))) (\<lambda>limit_up.
     ebind (count_where df k_pct (compare_num (\<lambda>q. q \<le> - (99 / 10)))) (\<lambda>limit_down.
     ebind (count_where df k_pct (compare_num (\<lambda>q. q > 0))) (\<lambda>up_count.
     ebind (count_where df k_pct (compare_num (\<lambda>q. q < 0))) (\<lambda>down_count.
     ebind (count_where df k_pct (eq_num 0)) (\<lambda>flat_count.
     ebind (ebind (getitem df k_pct) (series_mean L)) (\<lambda>avg_change.
     ebind (ebind (getitem df k_amount) (series_sum L)) (\<lambda>total_amount.
       Inr (JObj [
         (k_limit_stats, JObj [(k_limit_up, JInt (int limit_up)),
            (k_limit_down, JInt (int limit_down))]),
         (k_adv_dec, JObj [(k_up_count, JInt (int up_count)),
            (k_down_count, JInt (int down_count)), (k_flat_count, JInt (int flat_count))]),
         (k_market_perf, JObj [(k_avg_pct, JFloat (round_nd L avg_change 2)),
            (k_total_amount,
               JFloat (round_nd L (truediv L total_amount (Finite 100000000)) 2))]),
         (k_total_count, JInt (int (length (rows df))))])))))))))"

definition get_market_statistics_except :: "string \<Rightarrow> json" where
  "get_market_statistics_except msg =
     JObj [
       (k_limit_stats, JObj [(k_limit_up, JInt 45), (k_limit_down, JInt 12)]),
       (k_adv_dec, JObj [(k_up_count, JInt 2856), (k_down_count, JInt 1523),
          (k_flat_count, JInt 89)]),
       (k_market_perf, JObj [(k_avg_pct, JFloat (Finite (35 / 100))),
          (k_total_amount, JFloat (Finite (765432 / 100)))]),
       (k_total_count, JInt 4468),
       (''note'', JStr v_demo_data),
       (''error'', JStr msg)]"

definition get_market_statistics :: "pylib \<Rightarrow> exn + frame \<Rightarrow> response" where
  "get_market_statistics L fetch =
     (case get_market_statistics_try L fetch of
        Inr result \<Rightarrow> Json result
      | Inl e \<Rightarrow> Json (get_market_statistics_except (exn_str L e)))"

section \<open>\<open>get_sector_performance\<close> (lines 242 to 307)\<close>

definition sector_columns :: "string list" where
  "sector_columns = [k_sector_name, k_price, k_pct, k_change, k_volume, k_amount,
     k_up_count, k_down_count]"

text \<open>The dictionary appended for one sector, lines 273 to 280 and 283 to 290.\<close>

definition sector_entry :: "pylib \<Rightarrow> row \<Rightarrow> exn + json" where
  "sector_entry L row =
     ebind (py_float L (row k_price)) (\<lambda>price.
     ebind (py_float L (row k_pct)) (\<lambda>pct.
     ebind (py_float L (row k_change)) (\<lambda>change.
     ebind (py_int L (row k_up_count)) (\<lambda>up.
     ebind (py_int L (row k_down_count)) (\<lambda>down.
       Inr (JObj [(k_sector_name, json_of_cell (row k_sector_name)),
         (k_price, JFloat price), (k_pct, JFloat pct), (k_change, JFloat change),
         (k_up_count, JInt up), (k_down_count, JInt down)]))))))"

definition get_sector_performance_try :: "pylib \<Rightarrow> exn + frame \<Rightarrow> exn + json" where
  "get_sector_performance_try L fetch =
     ebind fetch (\<lambda>df0.
     ebind (select_columns df0 sector_columns) (\<lambda>df1.
     ebind (sort_values df1 k_pct False) (\<lambda>df.
     ebind (emap (sector_entry L) (rows (head df 10))) (\<lambda>best.
     ebind (emap (sector_entry L) (rows (tail df 10))) (\<lambda>worst.
       Inr (JObj [(k_best_sectors, JArr best), (k_worst_sectors, JArr worst)]))))))"

definition demo_sector :: "string \<Rightarrow> rat \<Rightarrow> rat \<Rightarrow> rat \<Rightarrow> int \<Rightarrow> int \<Rightarrow> json" where
  "demo_sector name price pct change up down =
     JObj [(k_sector_name, JStr name), (k_price, JFloat (Finite price)),
       (k_pct, JFloat (Finite pct)), (k_change, JFloat (Finite change)),
       (k_up_count, JInt up), (k_down_count, JInt down)]"

definition get_sector_performance_except :: "string \<Rightarrow> json" where
  "get_sector_performance_except msg =
     JObj [
       (k_best_sectors, JArr [
          demo_sector v_ai_apps (125678 / 100) (452 / 100) (5432 / 100) 45 3,
          demo_sector v_semiconductor (345689 / 100) (325 / 100) (10876 / 100) 89 12]),
       (k_worst_sectors, JArr [
          demo_sector v_real_estate (78945 / 100) (- 215 / 100) (- 1734 / 100) 8 67,
          demo_sector v_banks (102356 / 100) (- 123 / 100) (- 1278 / 100) 12 34]),
       (''note'', JStr v_demo_data),
       (''error'', JStr msg)]"

definition get_sector_performance :: "pylib \<Rightarrow> exn + frame \<Rightarrow> response" where
  "get_sector_performance L fetch =
     (case get_sector_performance_try L fetch of
        Inr result \<Rightarrow> Json result
      | Inl e \<Rightarrow> Json (get_sector_performance_except (exn_str L e)))"

section \<open>\<open>get_stock_info\<close> (lines 310 to 375)\<close>

text \<open>The fourteen entries of the dictionary that go through \<open>float\<close>, in order.\<close>

definition info_float_columns :: "string list" where
  "info_float_columns = [k_price, k_pct, k_change, k_open, k_high, k_low, k_prev_close,
     k_volume, k_amount, k_turnover_rate, k_pe, k_pb, k_total_cap, k_float_cap]"

text \<open>One entry \<open>c: float(stock_data[c])\<close> of the dictionary at lines 333 to 350.\<close>

definition info_float_entry :: "pylib \<Rightarrow> frame \<Rightarrow> row \<Rightarrow> string \<Rightarrow> exn + string \<times> json" where
  "info_float_entry L df stock_data c =
     ebind (series_getitem df stock_data c) (\<lambda>v.
     ebind (py_float L v) (\<lambda>x. Inr (c, JFloat x)))"

text \<open>
  The \<open>try\<close> block, lines 321 to 352. The entries of the dictionary are evaluated in
  the order they are written, so the first one that raises decides the exception.
\<close>

definition get_stock_info_try :: "pylib \<Rightarrow> string \<Rightarrow> exn + frame \<Rightarrow> exn + response" where
  "get_stock_info_try L stock_code fetch =
     ebind fetch (\<lambda>df.
     ebind (getitem df k_code) (\<lambda>col.
       case rows (boolean_index df (map (\<lambda>c. eq_str c stock_code) col)) of
         [] \<Rightarrow> Inr (Plain (v_not_found @ stock_code))
       | stock_data # rest \<Rightarrow>
           ebind (series_getitem df stock_data k_code) (\<lambda>code.
           ebind (series_getitem df stock_data k_name) (\<lambda>name.
           ebind (emap (info_float_entry L df stock_data) info_float_columns) (\<lambda>floats.
             Inr (Json (JObj ((k_code, json_of_cell code) # (k_name, json_of_cell name)
               # floats))))))))"

definition get_stock_info_except :: "string \<Rightarrow> string \<Rightarrow> json" where
  "get_stock_info_except stock_code msg =
     JObj [(k_code, JStr stock_code), (k_name, JStr v_sample_stock),
       (k_price, JFloat (Finite (1568 / 100))), (k_pct, JFloat (Finite (523 / 100))),
       (k_change, JFloat (Finite (78 / 100))), (k_open, JFloat (Finite (1510 / 100))),
       (k_high, JFloat (Finite (1585 / 100))), (k_low, JFloat (Finite (1505 / 100))),
       (k_prev_close, JFloat (Finite (1490 / 100))), (k_volume, JInt 125680000),
       (k_amount, JInt 1987654321), (k_turnover_rate, JFloat (Finite (345 / 100))),
       (k_pe, JFloat (Finite (256 / 10))), (k_pb, JFloat (Finite (28 / 10))),
       (k_total_cap, JInt 156800000000), (k_float_cap, JInt 98760000000),
       (''note'', JStr v_demo_data), (''error'', JStr msg)]"

definition get_stock_info :: "pylib \<Rightarrow> string \<Rightarrow> exn + frame \<Rightarrow> response" where
  "get_stock_info L stock_code fetch =
     (case get_stock_info_try L stock_code fetch of
        Inr r \<Rightarrow> r
      | Inl e \<Rightarrow> Json (get_stock_info_except stock_code (exn_str L e)))"

section \<open>Notions used to state the properties\<close>

text \<open>
  The order of floats: every comparison with NaN is false, as in Python.
\<close>

fun float_ge :: "pyfloat \<Rightarrow> pyfloat \<Rightarrow> bool" where
  "float_ge (Finite a) (Finite b) = (b \<le> a)"
| "float_ge x y = False"

definition non_increasing :: "pyfloat list \<Rightarrow> bool" where
  "non_increasing xs = sorted_wrt float_ge xs"

definition non_decreasing :: "pyfloat list \<Rightarrow> bool" where
  "non_decreasing xs = sorted_wrt (\<lambda>x y. float_ge y x) xs"

text \<open>The value of the percent-change entry of a row of a result; NaN when there is none.\<close>

definition entry_pct :: "json \<Rightarrow> pyfloat" where
  "entry_pct j = (case jget k_pct j of Some (JFloat x) \<Rightarrow> x | _ \<Rightarrow> NaN)"

text \<open>The entries of a section of a response that holds a list, and the fields of a response.\<close>

definition section_entries :: "string \<Rightarrow> response \<Rightarrow> json list" where
  "section_entries k r =
     (case r of
        Json j \<Rightarrow> (case jget k j of Some (JArr xs) \<Rightarrow> xs | _ \<Rightarrow> [])
      | Plain s \<Rightarrow> [])"

definition response_fields :: "response \<Rightarrow> (string \<times> json) list" where
  "response_fields r = (case r of Json (JObj kvs) \<Rightarrow> kvs | _ \<Rightarrow> [])"

definition is_jfloat :: "json \<Rightarrow> bool" where
  "is_jfloat j = (case j of JFloat x \<Rightarrow> True | _ \<Rightarrow> False)"

definition float_fields :: "response \<Rightarrow> string list" where
  "float_fields r = map fst (filter (\<lambda>(k, v). is_jfloat v) (response_fields r))"

text \<open>
  A row whose percent change is a number that satisfies \<open>p\<close>; a row with NaN or text
  there satisfies nothing.
\<close>

definition pct_is :: "(rat \<Rightarrow> bool) \<Rightarrow> row \<Rightarrow> bool" where
  "pct_is p r = (case r k_pct of CNum (Finite q) \<Rightarrow> p q | _ \<Rightarrow> False)"



section \<open>An instance of the library and sample tables\<close>

text \<open>
  The model runs on concrete tables once the library record is given. In the instance
  below the arithmetic is exact on rationals, \<open>round\<close> rounds halves to even, and no
  text is accepted as a number; the sample tables hold numbers only.
\<close>

definition round_half_even :: "rat \<Rightarrow> int" where
  "round_half_even q =
     (let f = \<lfloor>q\<rfloor>; d = q - of_int f
      in if d < 1 / 2 then f else if 1 / 2 < d then f + 1 else if even f then f else f + 1)"

definition exact_mean :: "cell list \<Rightarrow> exn + pyfloat" where
  "exact_mean col =
     (if list_all is_num col
      then (let xs = map num_key (filter (\<lambda>c. \<not> isna c) col)
            in if xs = [] then Inr NaN else Inr (Finite (sum_list xs / of_nat (length xs))))
      else Inl TypeError)"

definition exact_sum :: "cell list \<Rightarrow> exn + pyfloat" where
  "exact_sum col =
     (if list_all is_num col
      then Inr (Finite (sum_list (map num_key (filter (\<lambda>c. \<not> isna c) col))))
      else Inl TypeError)"

fun exact_div :: "pyfloat \<Rightarrow> pyfloat \<Rightarrow> pyfloat" where
  "exact_div (Finite a) (Finite b) = (if b = 0 then NaN else Finite (a / b))"
| "exact_div x y = NaN"

fun exact_round :: "pyfloat \<Rightarrow> nat \<Rightarrow> pyfloat" where
  "exact_round (Finite q) n = Finite (of_int (round_half_even (q * 10 ^ n)) / 10 ^ n)"
| "exact_round NaN n = NaN"

fun exact_str :: "exn \<Rightarrow> string" where
  "exact_str (KeyError c) = [CHR 0x27] @ c @ [CHR 0x27]"
| "exact_str TypeError = ''TypeError''"
| "exact_str ValueError = ''ValueError''"
| "exact_str (Failure msg) = msg"

definition exact_lib :: pylib where
  "exact_lib = \<lparr>str_to_float = (\<lambda>s. None), str_to_int = (\<lambda>s. None),
     series_mean = exact_mean, series_sum = exact_sum, truediv = exact_div,
     round_nd = exact_round, exn_str = exact_str\<rparr>"

text \<open>A quote row with the given code, name and percent change; every other cell is 1.\<close>

definition quote_row :: "string \<Rightarrow> string \<Rightarrow> pyfloat \<Rightarrow> row" where
  "quote_row code name pct =
     (\<lambda>c. if c = k_code then CStr code else if c = k_name then CStr name
          else if c = k_pct then CNum pct else CNum (Finite 1))"

definition quote_columns :: "string list" where
  "quote_columns = [k_code, k_name, k_price, k_pct, k_change, k_volume, k_amount, k_open,
     k_high, k_low, k_prev_close, k_turnover_rate, k_pe, k_pb, k_total_cap, k_float_cap]"

text \<open>Three instruments: one index code with a known quote, one index code with NaN.\<close>

definition snapshot3 :: frame where
  "snapshot3 = \<lparr>columns = quote_columns,
     rows = [quote_row ''600000'' ''A'' (Finite (- 2)),
             quote_row ''000001'' ''B'' (Finite (5 / 2)),
             quote_row ''399001'' ''C'' NaN]\<rparr>"

text \<open>The document that lines 27 to 59 build from \<open>snapshot3\<close>.\<close>

definition snapshot3_indices :: json where
  "snapshot3_indices =
     JObj [
       (n_sse, JObj [(k_code, JStr ''000001''), (k_price, JFloat (Finite 1)),
          (k_pct, JFloat (Finite (5 / 2))), (k_change, JFloat (Finite 1)),
          (k_volume, JFloat (Finite 1)), (k_amount, JFloat (Finite 1))]),
       (n_szse, JObj [(k_code, JStr ''399001''), (k_price, JFloat (Finite 1)),
          (k_pct, JFloat NaN), (k_change, JFloat (Finite 1)),
          (k_volume, JFloat (Finite 1)), (k_amount, JFloat (Finite 1))]),
       (n_chinext, JObj [(k_code, JStr ''399006''), (k_price, JInt 0), (k_pct, JInt 0),
          (k_change, JInt 0), (k_volume, JInt 0), (k_amount, JInt 0),
          (''note'', JStr v_no_data)]),
       (n_star50, JObj [(k_code, JStr ''000688''), (k_price, JInt 0), (k_pct, JInt 0),
          (k_change, JInt 0), (k_volume, JInt 0), (k_amount, JInt 0),
          (''note'', JStr v_no_data)])]"

text \<open>
  Four instruments with percent changes 10, -10, 0 and 3, and the document that
  lines 187 to 216 build from them with the exact library.
\<close>

definition snapshot4 :: frame where
  "snapshot4 = \<lparr>columns = quote_columns,
     rows = [quote_row ''600001'' ''A'' (Finite 10),
             quote_row ''600002'' ''B'' (Finite (- 10)),
             quote_row ''600003'' ''C'' (Finite 0),
             quote_row ''600004'' ''D'' (Finite 3)]\<rparr>"

definition snapshot4_statistics :: json where
  "snapshot4_statistics =
     JObj [
       (k_limit_stats, JObj [(k_limit_up, JInt 1), (k_limit_down, JInt 1)]),
       (k_adv_dec, JObj [(k_up_count, JInt 2), (k_down_count, JInt 1),
          (k_flat_count, JInt 1)]),
       (k_market_perf, JObj [(k_avg_pct, JFloat (Finite (75 / 100))),
          (k_total_amount, JFloat (Finite 0))]),
       (k_total_count, JInt 4)]"


text \<open>
  Twenty instruments: nineteen with the percent changes 0 to 18 and one, in the middle
  of the table, whose percent change is missing (NaN).
\<close>

definition snapshot20 :: frame where
  "snapshot20 = \<lparr>columns = quote_columns,
     rows = map (\<lambda>i. quote_row ''600000'' ''A'' (Finite (of_nat i))) [0..<10]
       @ [quote_row ''600001'' ''B'' NaN]
       @ map (\<lambda>i. quote_row ''600000'' ''A'' (Finite (of_nat i))) [10..<19]\<rparr>"

text \<open>
  Twenty-one instruments with the percent changes 0 to 20, the entry that lines 133 to
  141 build from a \<open>quote_row\<close>, and the ranking document of the twenty-one.
\<close>

definition snapshot21 :: frame where
  "snapshot21 = \<lparr>columns = quote_columns,
     rows = map (\<lambda>i. quote_row ''600000'' ''A'' (Finite (of_nat i))) [0..<21]\<rparr>"

definition quote_entry :: "string \<Rightarrow> string \<Rightarrow> pyfloat \<Rightarrow> json" where
  "quote_entry code name pct =
     JObj [(k_code, JStr code), (k_name, JStr name), (k_price, JFloat (Finite 1)),
       (k_pct, JFloat pct), (k_change, JFloat (Finite 1)), (k_volume, JFloat (Finite 1)),
       (k_amount, JFloat (Finite 1))]"

definition snapshot21_ranking :: json where
  "snapshot21_ranking =
     JObj [
       (k_gainers,
          JArr (map (\<lambda>i. quote_entry ''600000'' ''A'' (Finite (of_nat i))) (rev [1..<21]))),
       (k_losers,
          JArr (map (\<lambda>i. quote_entry ''600000'' ''A'' (Finite (of_nat i))) [0..<20]))]"

text \<open>
  Sector rows with the given name and percent change, every other cell being 1; a table
  of three sectors of which one has no percent change; a table of twenty-one sectors
  named A to U with the percent changes 0 to 20, and the document that lines 254 to 292
  build from it.
\<close>

definition sector_row :: "string \<Rightarrow> pyfloat \<Rightarrow> row" where
  "sector_row name pct =
     (\<lambda>c. if c = k_sector_name then CStr name else if c = k_pct then CNum pct
          else CNum (Finite 1))"

definition sectors3 :: frame where
  "sectors3 = \<lparr>columns = sector_columns,
     rows = [sector_row ''X'' (Finite 1), sector_row ''Y'' NaN, sector_row ''Z'' (Finite 2)]\<rparr>"

definition sectors21 :: frame where
  "sectors21 = \<lparr>columns = sector_columns,
     rows = map (\<lambda>i. sector_row [char_of (65 + i)] (Finite (of_nat i))) [0..<21]\<rparr>"

definition sector_document :: "nat \<Rightarrow> json" where
  "sector_document i =
     JObj [(k_sector_name, JStr [char_of (65 + i)]), (k_price, JFloat (Finite 1)),
       (k_pct, JFloat (Finite (of_nat i))), (k_change, JFloat (Finite 1)),
       (k_up_count, JInt 1), (k_down_count, JInt 1)]"

definition sectors21_performance :: json where
  "sectors21_performance =
     JObj [(k_best_sectors, JArr (map sector_document (rev [11..<21]))),
       (k_worst_sectors, JArr (map sector_document (rev [0..<10])))]"



text \<open>
  The float in a numeric cell; the percent changes of a table that are actual numbers,
  in table order, and the number of rows whose percent change is missing; a sequence of
  numbers followed by \<open>m\<close> times NaN.
\<close>

definition cell_float :: "cell \<Rightarrow> pyfloat" where
  "cell_float c = (case c of CNum x \<Rightarrow> x | CStr s \<Rightarrow> NaN)"

definition pct_numbers :: "frame \<Rightarrow> rat list" where
  "pct_numbers df = map (\<lambda>r. num_key (r k_pct)) (filter (\<lambda>r. \<not> isna (r k_pct)) (rows df))"

definition pct_missing :: "frame \<Rightarrow> nat" where
  "pct_missing df = length (filter (\<lambda>r. isna (r k_pct)) (rows df))"

definition nan_last :: "rat list \<Rightarrow> nat \<Rightarrow> pyfloat list" where
  "nan_last qs m = map Finite qs @ replicate m NaN"

text \<open>The twenty-one instruments of \<open>snapshot21\<close> and one without a percent change.\<close>

definition snapshot22 :: frame where
  "snapshot22 = \<lparr>columns = quote_columns,
     rows = quote_row ''600001'' ''B'' NaN # rows snapshot21\<rparr>"


section \<open>Basic facts about the primitives\<close>

lemma ebind_Inl [simp]: "ebind (Inl e) f = Inl e"
  by (simp add: ebind_def)

lemma ebind_Inr [simp]: "ebind (Inr x) f = f x"
  by (simp add: ebind_def)

lemma ebind_eq_Inr: "ebind m f = Inr y \<longleftrightarrow> (\<exists>x. m = Inr x \<and> f x = Inr y)"
  by (cases m) simp_all

lemma emap_eq_Inr: "emap f xs = Inr ys \<longleftrightarrow> list_all2 (\<lambda>x y. f x = Inr y) xs ys"
proof (induction xs arbitrary: ys)
  case Nil
  show ?case by auto
next
  case (Cons x xs)
  show ?case
    by (cases ys) (auto simp: ebind_eq_Inr Cons.IH)
qed

lemma boolean_index_filter:
  "map snd (filter fst (zip (map p xs) xs)) = filter p xs"
  by (induction xs) simp_all

lemma lookup_rows:
  assumes "getitem df k_code = Inr col"
  shows "rows (boolean_index df (map (\<lambda>c. eq_str c code) col))
     = filter (\<lambda>r. r k_code = CStr code) (rows df)"
proof -
  have e: "(\<lambda>r. eq_str (r k_code) code) = (\<lambda>r. r k_code = CStr code)"
    by (auto simp: eq_str_def fun_eq_iff split: cell.splits)
  have "col = map (\<lambda>r. r k_code) (rows df)"
    using assms by (auto simp: getitem_def split: if_splits)
  then show ?thesis
    using boolean_index_filter [of "\<lambda>r. eq_str (r k_code) code" "rows df"]
    by (simp add: boolean_index_def comp_def e)
qed

lemma find_filter: "find P xs = (case filter P xs of [] \<Rightarrow> None | x # _ \<Rightarrow> Some x)"
  by (induction xs) simp_all

lemma index_entry_absent:
  assumes "index_entry L df code = Inr j"
    and "find (\<lambda>r. r k_code = CStr code) (rows df) = None"
  shows "j = JObj [(k_code, JStr code), (k_price, JInt 0), (k_pct, JInt 0),
             (k_change, JInt 0), (k_volume, JInt 0), (k_amount, JInt 0),
             (''note'', JStr v_no_data)]"
proof -
  from assms(1) obtain col where c: "getitem df k_code = Inr col"
    by (auto simp: index_entry_def ebind_eq_Inr)
  have "filter (\<lambda>r. r k_code = CStr code) (rows df) = []"
    using assms(2) by (simp add: find_filter split: list.splits)
  then show ?thesis
    using assms(1) c by (simp add: index_entry_def lookup_rows [OF c])
qed

lemma index_entry_present:
  assumes "index_entry L df code = Inr j"
    and "find (\<lambda>r. r k_code = CStr code) (rows df) = Some idx"
  shows "\<exists>price pct change volume amount.
           py_float L (series_get df idx k_price (CNum (Finite 0))) = Inr price \<and>
           py_float L (series_get df idx k_pct (CNum (Finite 0))) = Inr pct \<and>
           py_float L (series_get df idx k_change (CNum (Finite 0))) = Inr change \<and>
           py_float L (series_get df idx k_volume (CNum (Finite 0))) = Inr volume \<and>
           py_float L (series_get df idx k_amount (CNum (Finite 0))) = Inr amount \<and>
           j = JObj [(k_code, JStr code), (k_price, JFloat price), (k_pct, JFloat pct),
               (k_change, JFloat change), (k_volume, JFloat volume),
               (k_amount, JFloat amount)]"
proof -
  from assms(1) obtain col where c: "getitem df k_code = Inr col"
    by (auto simp: index_entry_def ebind_eq_Inr)
  obtain rest where f: "filter (\<lambda>r. r k_code = CStr code) (rows df) = idx # rest"
    using assms(2) by (auto simp: find_filter split: list.splits)
  show ?thesis
    using assms(1) c f
    by (simp add: index_entry_def lookup_rows [OF c] ebind_eq_Inr) blast
qed

lemma try_index_Inr:
  assumes "get_stock_index_data_try L fetch = Inr result"
  shows "\<exists>df j1 j2 j3 j4. fetch = Inr df \<and>
     index_entry L df ''000001'' = Inr j1 \<and> index_entry L df ''399001'' = Inr j2 \<and>
     index_entry L df ''399006'' = Inr j3 \<and> index_entry L df ''000688'' = Inr j4 \<and>
     result = JObj [(n_sse, j1), (n_szse, j2), (n_chinext, j3), (n_star50, j4)]"
  using assms
  by (auto simp: get_stock_index_data_try_def indices_def ebind_eq_Inr)

lemma jget_four:
  "jget n_sse (JObj [(n_sse, j1), (n_szse, j2), (n_chinext, j3), (n_star50, j4)]) = Some j1"
  "jget n_szse (JObj [(n_sse, j1), (n_szse, j2), (n_chinext, j3), (n_star50, j4)]) = Some j2"
  "jget n_chinext (JObj [(n_sse, j1), (n_szse, j2), (n_chinext, j3), (n_star50, j4)]) = Some j3"
  "jget n_star50 (JObj [(n_sse, j1), (n_szse, j2), (n_chinext, j3), (n_star50, j4)]) = Some j4"
  by (simp_all add: jget_def str_defs)

section \<open>Properties of \<open>get_stock_index_data\<close>\<close>

lemma index_result_entry:
  assumes "get_stock_index_data_try L fetch = Inr result" and "(name, code) \<in> set indices"
  shows "\<exists>df j. fetch = Inr df \<and> index_entry L df code = Inr j \<and> jget name result = Some j"
proof -
  from try_index_Inr [OF assms(1)] obtain df j1 j2 j3 j4 where
    f: "fetch = Inr df" and
    e: "index_entry L df ''000001'' = Inr j1" "index_entry L df ''399001'' = Inr j2"
       "index_entry L df ''399006'' = Inr j3" "index_entry L df ''000688'' = Inr j4" and
    r: "result = JObj [(n_sse, j1), (n_szse, j2), (n_chinext, j3), (n_star50, j4)]"
    by blast
  from assms(2) consider "name = n_sse \<and> code = ''000001''" | "name = n_szse \<and> code = ''399001''"
    | "name = n_chinext \<and> code = ''399006''" | "name = n_star50 \<and> code = ''000688''"
    by (auto simp: indices_def)
  then show ?thesis
    using f e r by cases (simp_all add: jget_four)
qed

lemma found_row_fields:
  "jget k_code (JObj [(k_code, a), (k_price, b), (k_pct, c), (k_change, d), (k_volume, e),
     (k_amount, f)]) = Some a"
  "jget k_price (JObj [(k_code, a), (k_price, b), (k_pct, c), (k_change, d), (k_volume, e),
     (k_amount, f)]) = Some b"
  "jget k_pct (JObj [(k_code, a), (k_price, b), (k_pct, c), (k_change, d), (k_volume, e),
     (k_amount, f)]) = Some c"
  "jget k_change (JObj [(k_code, a), (k_price, b), (k_pct, c), (k_change, d), (k_volume, e),
     (k_amount, f)]) = Some d"
  "jget k_volume (JObj [(k_code, a), (k_price, b), (k_pct, c), (k_change, d), (k_volume, e),
     (k_amount, f)]) = Some e"
  "jget k_amount (JObj [(k_code, a), (k_price, b), (k_pct, c), (k_change, d), (k_volume, e),
     (k_amount, f)]) = Some f"
  by (simp_all add: jget_def str_defs)

lemma found_row_keys:
  "jkeys (JObj [(k_code, a), (k_price, b), (k_pct, c), (k_change, d), (k_volume, e),
     (k_amount, f)]) = [k_code, k_price, k_pct, k_change, k_volume, k_amount]"
  by (simp add: jkeys_def)

lemma note_not_quote_key: "''note'' \<notin> set [k_code, k_price, k_pct, k_change, k_volume, k_amount]"
  by (simp add: str_defs)

lemma snapshot3_index_run:
  "get_stock_index_data_try exact_lib (Inr snapshot3) = Inr snapshot3_indices"
  by (simp add: get_stock_index_data_try_def indices_def index_entry_def getitem_def
      boolean_index_def eq_str_def series_get_def py_float_def snapshot3_def quote_row_def
      quote_columns_def snapshot3_indices_def str_defs)



text \<open>
  C9. Every output of a run that does not fall back is a JSON object whose keys are the
  four index names, in this order; the code entry of each row is the hardcoded code of
  that name, whether or not the snapshot has the code; and the row of a code that the
  snapshot has holds no \<open>note\<close> key.
\<close>

theorem index_data_shape:
  assumes "get_stock_index_data_try L fetch = Inr result"
  shows "get_stock_index_data L fetch = Json result \<and>
    jkeys result = [n_sse, n_szse, n_chinext, n_star50] \<and>
    (\<forall>(name, code)\<in>set indices. jpath [name, k_code] result = Some (JStr code)) \<and>
    (\<forall>(name, code)\<in>set indices. \<forall>df. fetch = Inr df \<longrightarrow>
       (\<exists>r\<in>set (rows df). r k_code = CStr code) \<longrightarrow>
       (\<exists>row. jget name result = Some row \<and> ''note'' \<notin> set (jkeys row)))"
proof -
  have top: "get_stock_index_data L fetch = Json result"
    using assms by (simp add: get_stock_index_data_def)
  from try_index_Inr [OF assms] have keys: "jkeys result = [n_sse, n_szse, n_chinext, n_star50]"
    by (auto simp: jkeys_def)
  have entry: "jpath [name, k_code] result = Some (JStr code) \<and>
      (\<forall>df. fetch = Inr df \<longrightarrow> (\<exists>r\<in>set (rows df). r k_code = CStr code) \<longrightarrow>
         (\<exists>row. jget name result = Some row \<and> ''note'' \<notin> set (jkeys row)))"
    if m: "(name, code) \<in> set indices" for name code
  proof -
    from index_result_entry [OF assms m] obtain df j where
      f: "fetch = Inr df" and e: "index_entry L df code = Inr j"
      and g: "jget name result = Some j"
      by auto
    show ?thesis
    proof (cases "find (\<lambda>r. r k_code = CStr code) (rows df)")
      case None
      then have "\<not> (\<exists>r\<in>set (rows df). r k_code = CStr code)"
        by (simp add: find_None_iff)
      moreover have "jget k_code j = Some (JStr code)"
        using index_entry_absent [OF e None] by (simp add: jget_def)
      ultimately show ?thesis using f g by simp
    next
      case (Some idx)
      from index_entry_present [OF e Some] obtain price pct change volume amount where
        j: "j = JObj [(k_code, JStr code), (k_price, JFloat price), (k_pct, JFloat pct),
               (k_change, JFloat change), (k_volume, JFloat volume),
               (k_amount, JFloat amount)]"
        by blast
      have "jget k_code j = Some (JStr code)"
        unfolding j by (simp add: found_row_fields)
      moreover have "''note'' \<notin> set (jkeys j)"
        unfolding j found_row_keys by (rule note_not_quote_key)
      ultimately show ?thesis using f g by simp
    qed
  qed
  from top keys entry show ?thesis by blast
qed

theorem index_data_shape_witness:
  "get_stock_index_data_try exact_lib (Inr snapshot3) = Inr snapshot3_indices \<and>
   get_stock_index_data exact_lib (Inr snapshot3) = Json snapshot3_indices \<and>
   jkeys snapshot3_indices = [n_sse, n_szse, n_chinext, n_star50] \<and>
   jpath [n_chinext, k_code] snapshot3_indices = Some (JStr ''399006'') \<and>
   (\<exists>r\<in>set (rows snapshot3). r k_code = CStr ''399001'') \<and>
   (\<exists>row. jget n_szse snapshot3_indices = Some row \<and> ''note'' \<notin> set (jkeys row))"
proof -
  have h1: "get_stock_index_data_try exact_lib (Inr snapshot3) = Inr snapshot3_indices"
    by (rule snapshot3_index_run)
  have m1: "(n_chinext, ''399006'') \<in> set indices" and m2: "(n_szse, ''399001'') \<in> set indices"
    by (simp_all add: indices_def)
  have p: "\<exists>r\<in>set (rows snapshot3). r k_code = CStr ''399001''"
    by (simp add: snapshot3_def quote_row_def)
  from index_data_shape [OF h1] have
    a: "get_stock_index_data exact_lib (Inr snapshot3) = Json snapshot3_indices" and
    b: "jkeys snapshot3_indices = [n_sse, n_szse, n_chinext, n_star50]" and
    c: "\<forall>(name, code)\<in>set indices. jpath [name, k_code] snapshot3_indices = Some (JStr code)" and
    d: "\<forall>(name, code)\<in>set indices. \<forall>df. Inr snapshot3 = Inr df \<longrightarrow>
       (\<exists>r\<in>set (rows df). r k_code = CStr code) \<longrightarrow>
       (\<exists>row. jget name snapshot3_indices = Some row \<and> ''note'' \<notin> set (jkeys row))"
    by blast+
  from c m1 have c': "jpath [n_chinext, k_code] snapshot3_indices = Some (JStr ''399006'')"
    by blast
  from d m2 p have d': "\<exists>row. jget n_szse snapshot3_indices = Some row \<and> ''note'' \<notin> set (jkeys row)"
    by blast
  from h1 a b c' p d' show ?thesis by blast
qed


section \<open>Properties of \<open>get_market_statistics\<close>\<close>

lemma mask_filter:
  "list_all2 (\<lambda>x b. p x = Inr b) (map g rs) bs \<Longrightarrow>
     map snd (filter fst (zip bs rs)) = filter (\<lambda>r. p (g r) = Inr True) rs"
proof (induction rs arbitrary: bs)
  case Nil
  then show ?case by simp
next
  case (Cons r rs)
  then obtain b bs' where bs: "bs = b # bs'" and b: "p (g r) = Inr b"
    and rest: "list_all2 (\<lambda>x b. p x = Inr b) (map g rs) bs'"
    by (auto simp: list_all2_Cons1)
  from Cons.IH [OF rest] bs b show ?case by simp
qed

lemma count_where_Inr:
  assumes "count_where df c p = Inr n"
  shows "n = length (filter (\<lambda>r. p (r c) = Inr True) (rows df))"
proof -
  from assms obtain col bs where col: "getitem df c = Inr col"
    and bs: "emap p col = Inr bs" and n: "n = length (rows (boolean_index df bs))"
    by (auto simp: count_where_def ebind_eq_Inr)
  from col have "col = map (\<lambda>r. r c) (rows df)"
    by (auto simp: getitem_def split: if_splits)
  with bs have "list_all2 (\<lambda>x b. p x = Inr b) (map (\<lambda>r. r c) (rows df)) bs"
    by (simp add: emap_eq_Inr)
  from mask_filter [OF this] n show ?thesis
    by (simp add: boolean_index_def)
qed

lemma compare_num_True: "compare_num p (r k_pct) = Inr True \<longleftrightarrow> pct_is p r"
  by (simp add: compare_num_def pct_is_def split: cell.splits pyfloat.splits)

lemma eq_num_True: "eq_num v (r k_pct) = Inr True \<longleftrightarrow> pct_is (\<lambda>q. q = v) r"
  by (simp add: eq_num_def pct_is_def split: cell.splits pyfloat.splits)

lemma market_try_Inr:
  assumes "get_market_statistics_try L (Inr df) = Inr result"
  shows "\<exists>avg total. result =
     JObj [
       (k_limit_stats, JObj [
          (k_limit_up, JInt (int (length (filter (pct_is (\<lambda>q. 99 / 10 \<le> q)) (rows df))))),
          (k_limit_down,
             JInt (int (length (filter (pct_is (\<lambda>q. q \<le> - (99 / 10))) (rows df)))))]),
       (k_adv_dec, JObj [
          (k_up_count, JInt (int (length (filter (pct_is (\<lambda>q. 0 < q)) (rows df))))),
          (k_down_count, JInt (int (length (filter (pct_is (\<lambda>q. q < 0)) (rows df))))),
          (k_flat_count, JInt (int (length (filter (pct_is (\<lambda>q. q = 0)) (rows df)))))]),
       (k_market_perf, JObj [(k_avg_pct, JFloat avg), (k_total_amount, JFloat total)]),
       (k_total_count, JInt (int (length (rows df))))]"
proof -
  from assms obtain n1 n2 n3 n4 n5 avg_change total_amount where
    c: "count_where df k_pct (compare_num (\<lambda>q. q \<ge> 99 / 10)) = Inr n1"
       "count_where df k_pct (compare_num (\<lambda>q. q \<le> - (99 / 10))) = Inr n2"
       "count_where df k_pct (compare_num (\<lambda>q. q > 0)) = Inr n3"
       "count_where df k_pct (compare_num (\<lambda>q. q < 0)) = Inr n4"
       "count_where df k_pct (eq_num 0) = Inr n5" and
    r: "result = JObj [
         (k_limit_stats, JObj [(k_limit_up, JInt (int n1)), (k_limit_down, JInt (int n2))]),
         (k_adv_dec, JObj [(k_up_count, JInt (int n3)), (k_down_count, JInt (int n4)),
            (k_flat_count, JInt (int n5))]),
         (k_market_perf, JObj [(k_avg_pct, JFloat (round_nd L avg_change 2)),
            (k_total_amount,
               JFloat (round_nd L (truediv L total_amount (Finite 100000000)) 2))]),
         (k_total_count, JInt (int (length (rows df))))]"
    unfolding get_market_statistics_try_def ebind_Inr ebind_eq_Inr by blast
  note n = c [THEN count_where_Inr, unfolded compare_num_True eq_num_True]
  show ?thesis
    unfolding r n by blast
qed

text \<open>
  The two entries of the market performance: \<open>round(mean, 2)\<close> of the percent-change
  column and \<open>round(sum / 100000000, 2)\<close> of the turnover column. What the mean, the
  sum, the division and \<open>round\<close> compute on floats is the library's.
\<close>

lemma market_statistics_performance:
  assumes "get_market_statistics_try L (Inr df) = Inr result"
  shows "\<exists>avg total.
     series_mean L (map (\<lambda>r. r k_pct) (rows df)) = Inr avg \<and>
     series_sum L (map (\<lambda>r. r k_amount) (rows df)) = Inr total \<and>
     jpath [k_market_perf, k_avg_pct] result = Some (JFloat (round_nd L avg 2)) \<and>
     jpath [k_market_perf, k_total_amount] result
       = Some (JFloat (round_nd L (truediv L total (Finite 100000000)) 2))"
proof -
  from assms obtain n1 n2 n3 n4 n5 avg_change total_amount where
    m: "ebind (getitem df k_pct) (series_mean L) = Inr avg_change"
       "ebind (getitem df k_amount) (series_sum L) = Inr total_amount" and
    r: "result = JObj [
         (k_limit_stats, JObj [(k_limit_up, JInt (int n1)), (k_limit_down, JInt (int n2))]),
         (k_adv_dec, JObj [(k_up_count, JInt (int n3)), (k_down_count, JInt (int n4)),
            (k_flat_count, JInt (int n5))]),
         (k_market_perf, JObj [(k_avg_pct, JFloat (round_nd L avg_change 2)),
            (k_total_amount,
               JFloat (round_nd L (truediv L total_amount (Finite 100000000)) 2))]),
         (k_total_count, JInt (int (length (rows df))))]"
    unfolding get_market_statistics_try_def ebind_Inr ebind_eq_Inr by blast
  from m have "series_mean L (map (\<lambda>r. r k_pct) (rows df)) = Inr avg_change"
    "series_sum L (map (\<lambda>r. r k_amount) (rows df)) = Inr total_amount"
    by (auto simp: getitem_def ebind_eq_Inr split: if_splits)
  moreover have "jpath [k_market_perf, k_avg_pct] result
      = Some (JFloat (round_nd L avg_change 2))"
    "jpath [k_market_perf, k_total_amount] result
      = Some (JFloat (round_nd L (truediv L total_amount (Finite 100000000)) 2))"
    unfolding r by (simp_all add: jget_def str_defs)
  ultimately show ?thesis
    by blast
qed

lemma statistics_paths:
  "jpath [k_limit_stats, k_limit_up] (JObj [
       (k_limit_stats, JObj [(k_limit_up, a), (k_limit_down, b)]),
       (k_adv_dec, JObj [(k_up_count, c), (k_down_count, d), (k_flat_count, e)]),
       (k_market_perf, m), (k_total_count, t)]) = Some a"
  "jpath [k_limit_stats, k_limit_down] (JObj [
       (k_limit_stats, JObj [(k_limit_up, a), (k_limit_down, b)]),
       (k_adv_dec, JObj [(k_up_count, c), (k_down_count, d), (k_flat_count, e)]),
       (k_market_perf, m), (k_total_count, t)]) = Some b"
  "jpath [k_adv_dec, k_up_count] (JObj [
       (k_limit_stats, JObj [(k_limit_up, a), (k_limit_down, b)]),
       (k_adv_dec, JObj [(k_up_count, c), (k_down_count, d), (k_flat_count, e)]),
       (k_market_perf, m), (k_total_count, t)]) = Some c"
  "jpath [k_adv_dec, k_down_count] (JObj [
       (k_limit_stats, JObj [(k_limit_up, a), (k_limit_down, b)]),
       (k_adv_dec, JObj [(k_up_count, c), (k_down_count, d), (k_flat_count, e)]),
       (k_market_perf, m), (k_total_count, t)]) = Some d"
  "jpath [k_adv_dec, k_flat_count] (JObj [
       (k_limit_stats, JObj [(k_limit_up, a), (k_limit_down, b)]),
       (k_adv_dec, JObj [(k_up_count, c), (k_down_count, d), (k_flat_count, e)]),
       (k_market_perf, m), (k_total_count, t)]) = Some e"
  "jpath [k_total_count] (JObj [
       (k_limit_stats, JObj [(k_limit_up, a), (k_limit_down, b)]),
       (k_adv_dec, JObj [(k_up_count, c), (k_down_count, d), (k_flat_count, e)]),
       (k_market_perf, m), (k_total_count, t)]) = Some t"
  by (simp_all add: jget_def str_defs)

lemma sign_partition:
  assumes "\<forall>r\<in>set rs. \<exists>q. r k_pct = CNum (Finite q)"
  shows "length (filter (pct_is (\<lambda>q. 0 < q)) rs) + length (filter (pct_is (\<lambda>q. q < 0)) rs)
       + length (filter (pct_is (\<lambda>q. q = 0)) rs) = length rs"
  using assms
proof (induction rs)
  case Nil
  show ?case by simp
next
  case (Cons r rs)
  then obtain q where q: "r k_pct = CNum (Finite q)" by auto
  have "0 < q \<or> q < 0 \<or> q = 0" by linarith
  with Cons q show ?case
    by (auto simp: pct_is_def)
qed

lemma round_half_even_samples:
  "round_half_even 75 = 75" "round_half_even (1 / 250000) = 0"
  by code_simp+

lemma snapshot4_statistics_run:
  "get_market_statistics_try exact_lib (Inr snapshot4) = Inr snapshot4_statistics"
  by (simp add: get_market_statistics_try_def count_where_def getitem_def boolean_index_def
      compare_num_def eq_num_def snapshot4_def quote_row_def quote_columns_def
      snapshot4_statistics_def exact_lib_def exact_mean_def exact_sum_def is_num_def
      isna_def num_key_def round_half_even_samples Let_def str_defs)



text \<open>
  C10. When every percent change of the snapshot is an actual number, the advancing,
  declining and flat counts of a run that does not fall back add up to the total count.
\<close>

theorem market_statistics_counts_add_up:
  assumes "get_market_statistics_try L (Inr df) = Inr result"
    and "\<forall>r\<in>set (rows df). \<exists>q. r k_pct = CNum (Finite q)"
  shows "\<exists>up down flat.
    get_market_statistics L (Inr df) = Json result \<and>
    jpath [k_adv_dec, k_up_count] result = Some (JInt up) \<and>
    jpath [k_adv_dec, k_down_count] result = Some (JInt down) \<and>
    jpath [k_adv_dec, k_flat_count] result = Some (JInt flat) \<and>
    jpath [k_total_count] result = Some (JInt (up + down + flat))"
proof -
  have top: "get_market_statistics L (Inr df) = Json result"
    using assms(1) by (simp add: get_market_statistics_def)
  from market_try_Inr [OF assms(1)] obtain avg total where
    r: "result = JObj [
       (k_limit_stats, JObj [
          (k_limit_up, JInt (int (length (filter (pct_is (\<lambda>q. 99 / 10 \<le> q)) (rows df))))),
          (k_limit_down,
             JInt (int (length (filter (pct_is (\<lambda>q. q \<le> - (99 / 10))) (rows df)))))]),
       (k_adv_dec, JObj [
          (k_up_count, JInt (int (length (filter (pct_is (\<lambda>q. 0 < q)) (rows df))))),
          (k_down_count, JInt (int (length (filter (pct_is (\<lambda>q. q < 0)) (rows df))))),
          (k_flat_count, JInt (int (length (filter (pct_is (\<lambda>q. q = 0)) (rows df)))))]),
       (k_market_perf, JObj [(k_avg_pct, JFloat avg), (k_total_amount, JFloat total)]),
       (k_total_count, JInt (int (length (rows df))))]"
    by blast
  have sum: "int (length (rows df)) =
      int (length (filter (pct_is (\<lambda>q. 0 < q)) (rows df)))
      + int (length (filter (pct_is (\<lambda>q. q < 0)) (rows df)))
      + int (length (filter (pct_is (\<lambda>q. q = 0)) (rows df)))"
    using sign_partition [OF assms(2)] by linarith
  show ?thesis
    unfolding r statistics_paths using top [unfolded r] sum by simp
qed

theorem market_statistics_counts_add_up_witness:
  "get_market_statistics_try exact_lib (Inr snapshot4) = Inr snapshot4_statistics \<and>
   list_all (\<lambda>r. \<exists>q. r k_pct = CNum (Finite q)) (rows snapshot4) \<and>
   (\<exists>up down flat.
      get_market_statistics exact_lib (Inr snapshot4) = Json snapshot4_statistics \<and>
      jpath [k_adv_dec, k_up_count] snapshot4_statistics = Some (JInt up) \<and>
      jpath [k_adv_dec, k_down_count] snapshot4_statistics = Some (JInt down) \<and>
      jpath [k_adv_dec, k_flat_count] snapshot4_statistics = Some (JInt flat) \<and>
      jpath [k_total_count] snapshot4_statistics = Some (JInt (up + down + flat)))"
proof -
  have h1: "get_market_statistics_try exact_lib (Inr snapshot4) = Inr snapshot4_statistics"
    by (rule snapshot4_statistics_run)
  have h2: "\<forall>r\<in>set (rows snapshot4). \<exists>q. r k_pct = CNum (Finite q)"
    by (simp add: snapshot4_def quote_row_def str_defs)
  from h2 have h3: "list_all (\<lambda>r. \<exists>q. r k_pct = CNum (Finite q)) (rows snapshot4)"
    by (simp add: list_all_iff)
  from market_statistics_counts_add_up [OF h1 h2] h1 h3 show ?thesis
    by blast
qed


section \<open>The \<open>except\<close> branches\<close>












section \<open>Properties of \<open>get_stock_info\<close>\<close>

lemma emap_map:
  "(\<forall>x\<in>set xs. f x = Inr (g x)) \<Longrightarrow> emap f xs = Inr (map g xs)"
  by (induction xs) simp_all

lemma info_float_entry_Inr:
  assumes "c \<in> set (columns df)" and "py_float L (sd c) = Inr x"
  shows "info_float_entry L df sd c = Inr (c, JFloat x)"
  using assms by (simp add: info_float_entry_def series_getitem_def)

lemma info_columns_length: "length info_float_columns = 14"
  by (simp add: info_float_columns_def)

lemma is_jfloat_simps:
  "is_jfloat (JFloat x) = True" "is_jfloat (JStr t) = False" "is_jfloat (JInt i) = False"
  by (simp_all add: is_jfloat_def)

lemma float_entries_kept:
  "map fst (filter (\<lambda>(k, v). is_jfloat v) (map (\<lambda>c. (c, JFloat (f c))) cs)) = cs"
  by (induction cs) (simp_all add: is_jfloat_simps)

lemma info_try_absent:
  assumes "k_code \<in> set (columns df)"
    and "find (\<lambda>r. r k_code = CStr stock_code) (rows df) = None"
  shows "get_stock_info_try L stock_code (Inr df) = Inr (Plain (v_not_found @ stock_code))"
proof -
  from assms(1) obtain col where c: "getitem df k_code = Inr col"
    by (simp add: getitem_def)
  have "filter (\<lambda>r. r k_code = CStr stock_code) (rows df) = []"
    using assms(2) by (simp add: find_filter split: list.splits)
  then show ?thesis
    by (simp add: get_stock_info_try_def c lookup_rows [OF c])
qed

lemma info_try_present:
  assumes "k_code \<in> set (columns df)"
    and "find (\<lambda>r. r k_code = CStr stock_code) (rows df) = Some sd"
    and "\<forall>c\<in>set (k_name # info_float_columns). c \<in> set (columns df)"
    and "\<forall>c\<in>set info_float_columns. py_float L (sd c) = Inr (f c)"
  shows "get_stock_info_try L stock_code (Inr df) =
     Inr (Json (JObj ((k_code, JStr stock_code) # (k_name, json_of_cell (sd k_name))
       # map (\<lambda>c. (c, JFloat (f c))) info_float_columns)))"
proof -
  from assms(1) obtain col where c: "getitem df k_code = Inr col"
    by (simp add: getitem_def)
  obtain rest where r: "filter (\<lambda>r. r k_code = CStr stock_code) (rows df) = sd # rest"
    using assms(2) by (auto simp: find_filter split: list.splits)
  have code: "sd k_code = CStr stock_code"
    using assms(2) by (auto simp: find_Some_iff)
  have name: "series_getitem df sd k_name = Inr (sd k_name)"
    using assms(3) by (simp add: series_getitem_def)
  have cget: "series_getitem df sd k_code = Inr (CStr stock_code)"
    using assms(1) code by (simp add: series_getitem_def)
  have "\<forall>c\<in>set info_float_columns.
      info_float_entry L df sd c = Inr (c, JFloat (f c))"
    using assms(3,4) by (simp add: info_float_entry_Inr)
  from emap_map [OF this]
  have floats: "emap (info_float_entry L df sd) info_float_columns
      = Inr (map (\<lambda>c. (c, JFloat (f c))) info_float_columns)" .
  show ?thesis
    by (simp add: get_stock_info_try_def c lookup_rows [OF c] r cget name floats
        json_of_cell_def)
qed

lemma info_except_length:
  "length (response_fields (Json (get_stock_info_except stock_code msg))) = 18"
  by (simp add: get_stock_info_except_def response_fields_def)

lemma info_keys_fresh:
  "k_code \<notin> set info_float_columns" "k_name \<notin> set info_float_columns"
  "k_code \<noteq> k_name"
  by (simp_all add: info_float_columns_def str_defs)

lemma map_of_graph:
  "c \<in> set cs \<Longrightarrow> map_of (map (\<lambda>c. (c, g c)) cs) c = Some (g c)"
  by (induction cs) auto

lemma info_document_fields:
  assumes "c \<in> set info_float_columns"
  shows "jget c (JObj ((k_code, a) # (k_name, b)
     # map (\<lambda>c. (c, JFloat (f c))) info_float_columns)) = Some (JFloat (f c))"
proof -
  from assms info_keys_fresh have "c \<noteq> k_code" "c \<noteq> k_name"
    by auto
  then show ?thesis
    using map_of_graph [OF assms, of "\<lambda>c. JFloat (f c)"] by (simp add: jget_def)
qed

lemma snapshot4_info_run:
  "get_stock_info exact_lib ''600001'' (Inr snapshot4) =
     Json (JObj ((k_code, JStr ''600001'') # (k_name, JStr ''A'')
       # map (\<lambda>c. (c, JFloat (if c = k_pct then Finite 10 else Finite 1)))
           info_float_columns))"
  by (simp add: get_stock_info_def get_stock_info_try_def getitem_def boolean_index_def
      eq_str_def series_getitem_def info_float_entry_def py_float_def json_of_cell_def
      info_float_columns_def snapshot4_def quote_row_def quote_columns_def str_defs)

text \<open>
  C2 as stated fails: for a code that the snapshot has, the document has sixteen
  entries, of which fourteen are floats; the code and the name are text.
\<close>

theorem stock_info_fifteen_floats_counterexample:
  "find (\<lambda>r. r k_code = CStr ''600001'') (rows snapshot4)
     = Some (quote_row ''600001'' ''A'' (Finite 10)) \<and>
   length (response_fields (get_stock_info exact_lib ''600001'' (Inr snapshot4))) = 16 \<and>
   length (float_fields (get_stock_info exact_lib ''600001'' (Inr snapshot4))) = 14 \<and>
   jget k_code (JObj (response_fields (get_stock_info exact_lib ''600001'' (Inr snapshot4))))
     = Some (JStr ''600001'') \<and>
   jget k_name (JObj (response_fields (get_stock_info exact_lib ''600001'' (Inr snapshot4))))
     = Some (JStr ''A'')"
proof -
  have f: "find (\<lambda>r. r k_code = CStr ''600001'') (rows snapshot4)
     = Some (quote_row ''600001'' ''A'' (Finite 10))"
    by (simp add: snapshot4_def quote_row_def)
  have fl: "float_fields (Json (JObj ((k_code, JStr a) # (k_name, JStr b)
      # map (\<lambda>c. (c, JFloat (g c))) info_float_columns))) = info_float_columns" for a b g
    by (simp add: float_fields_def response_fields_def is_jfloat_simps float_entries_kept
        comp_def)
  show ?thesis
    unfolding snapshot4_info_run fl
    by (simp add: f response_fields_def info_columns_length jget_def info_keys_fresh
        info_keys_fresh(3) [symmetric])
qed

text \<open>
  C2, as the code has it. With the code column in the snapshot: when no row has the
  queried code, the result is the plain not-found message, which is no JSON document.
  When a row has it, the name column and the fourteen numeric columns exist and the
  fourteen cells of the first such row convert to floats, the result is a JSON document
  of sixteen entries: the code as text, the name as the cell holds it, and fourteen
  floats. The document of the \<open>except\<close> branch has eighteen entries, so the three
  shapes differ.
\<close>

theorem stock_info_shapes:
  assumes "k_code \<in> set (columns df)"
  shows "case find (\<lambda>r. r k_code = CStr stock_code) (rows df) of
     None \<Rightarrow> get_stock_info L stock_code (Inr df) = Plain (v_not_found @ stock_code)
   | Some sd \<Rightarrow>
       (\<forall>c\<in>set (k_name # info_float_columns). c \<in> set (columns df)) \<longrightarrow>
       (\<forall>c\<in>set info_float_columns. py_float L (sd c) = Inr (f c)) \<longrightarrow>
         get_stock_info L stock_code (Inr df) =
           Json (JObj ((k_code, JStr stock_code) # (k_name, json_of_cell (sd k_name))
             # map (\<lambda>c. (c, JFloat (f c))) info_float_columns)) \<and>
         length (response_fields (get_stock_info L stock_code (Inr df))) = 16 \<and>
         length info_float_columns = 14 \<and>
         (\<forall>c\<in>set info_float_columns.
            jget c (JObj (response_fields (get_stock_info L stock_code (Inr df))))
              = Some (JFloat (f c))) \<and>
         (\<forall>msg. get_stock_info L stock_code (Inr df)
            \<noteq> Json (get_stock_info_except stock_code msg))"
proof (cases "find (\<lambda>r. r k_code = CStr stock_code) (rows df)")
  case None
  from info_try_absent [OF assms None] None show ?thesis
    by (simp add: get_stock_info_def)
next
  case (Some sd)
  let ?kvs = "(k_code, JStr stock_code) # (k_name, json_of_cell (sd k_name))
           # map (\<lambda>c. (c, JFloat (f c))) info_float_columns"
  have fields: "response_fields (Json (JObj ?kvs)) = ?kvs"
    by (simp add: response_fields_def)
  show ?thesis
    unfolding Some option.case
  proof (intro impI)
    assume cols: "\<forall>c\<in>set (k_name # info_float_columns). c \<in> set (columns df)"
      and conv: "\<forall>c\<in>set info_float_columns. py_float L (sd c) = Inr (f c)"
    from info_try_present [OF assms Some cols conv]
    have run: "get_stock_info L stock_code (Inr df) = Json (JObj ?kvs)"
      by (simp add: get_stock_info_def)
    have len: "length ?kvs = 16"
      by (simp add: info_columns_length)
    have get: "\<forall>c\<in>set info_float_columns. jget c (JObj ?kvs) = Some (JFloat (f c))"
      using info_document_fields by blast
    have other: "Json (JObj ?kvs) \<noteq> Json (get_stock_info_except stock_code msg)" for msg
    proof
      assume "Json (JObj ?kvs) = Json (get_stock_info_except stock_code msg)"
      then have "length (response_fields (Json (JObj ?kvs)))
          = length (response_fields (Json (get_stock_info_except stock_code msg)))"
        by simp
      then show False
        unfolding info_except_length by (simp add: response_fields_def info_columns_length)
    qed
    show "get_stock_info L stock_code (Inr df) = Json (JObj ?kvs) \<and>
         length (response_fields (get_stock_info L stock_code (Inr df))) = 16 \<and>
         length info_float_columns = 14 \<and>
         (\<forall>c\<in>set info_float_columns.
            jget c (JObj (response_fields (get_stock_info L stock_code (Inr df))))
              = Some (JFloat (f c))) \<and>
         (\<forall>msg. get_stock_info L stock_code (Inr df)
            \<noteq> Json (get_stock_info_except stock_code msg))"
      unfolding run fields by (intro conjI allI refl len get other info_columns_length)
  qed
qed

theorem stock_info_shapes_witness:
  "k_code \<in> set (columns snapshot4) \<and>
   find (\<lambda>r. r k_code = CStr ''600001'') (rows snapshot4)
     = Some (quote_row ''600001'' ''A'' (Finite 10)) \<and>
   get_stock_info exact_lib ''600001'' (Inr snapshot4) =
     Json (JObj ((k_code, JStr ''600001'') # (k_name, JStr ''A'')
       # map (\<lambda>c. (c, JFloat (if c = k_pct then Finite 10 else Finite 1)))
           info_float_columns)) \<and>
   find (\<lambda>r. r k_code = CStr ''000001'') (rows snapshot4) = None \<and>
   get_stock_info exact_lib ''000001'' (Inr snapshot4) = Plain (v_not_found @ ''000001'')"
proof -
  have h: "k_code \<in> set (columns snapshot4)"
    by (simp add: snapshot4_def quote_columns_def)
  have f1: "find (\<lambda>r. r k_code = CStr ''600001'') (rows snapshot4)
     = Some (quote_row ''600001'' ''A'' (Finite 10))"
    by (simp add: snapshot4_def quote_row_def)
  have f2: "find (\<lambda>r. r k_code = CStr ''000001'') (rows snapshot4) = None"
    by (simp add: snapshot4_def quote_row_def)
  have cols: "\<forall>c\<in>set (k_name # info_float_columns). c \<in> set (columns snapshot4)"
    by (simp add: snapshot4_def quote_columns_def info_float_columns_def)
  have conv: "\<forall>c\<in>set info_float_columns.
      py_float exact_lib (quote_row ''600001'' ''A'' (Finite 10) c)
        = Inr (if c = k_pct then Finite 10 else Finite 1)"
    using info_keys_fresh by (auto simp: quote_row_def py_float_def)
  have name: "json_of_cell (quote_row ''600001'' ''A'' (Finite 10) k_name) = JStr ''A''"
    using info_keys_fresh(3) by (simp add: quote_row_def json_of_cell_def)
  from stock_info_shapes [OF h, where stock_code = "''600001''" and L = exact_lib
      and f = "\<lambda>c. if c = k_pct then Finite 10 else Finite 1"] f1 cols conv name
  have a: "get_stock_info exact_lib ''600001'' (Inr snapshot4) =
     Json (JObj ((k_code, JStr ''600001'') # (k_name, JStr ''A'')
       # map (\<lambda>c. (c, JFloat (if c = k_pct then Finite 10 else Finite 1)))
           info_float_columns))"
    by simp
  from stock_info_shapes [OF h, where stock_code = "''000001''" and L = exact_lib] f2
  have b: "get_stock_info exact_lib ''000001'' (Inr snapshot4) = Plain (v_not_found @ ''000001'')"
    by simp
  from h f1 f2 a b show ?thesis by blast
qed


section \<open>Sorting by a column of numbers\<close>

lemma enumerate_snd_mem:
  assumes "p \<in> set (enumerate n xs)"
  shows "snd p \<in> set xs"
proof -
  from assms have "fst p - n < length xs" and "xs ! (fst p - n) = snd p"
    by (auto simp: in_set_enumerate_eq)
  then show ?thesis
    using nth_mem by metis
qed

lemma enumerate_nth: "p \<in> set (enumerate 0 xs) \<Longrightarrow> fst p < length xs \<and> xs ! fst p = snd p"
  by (auto simp: in_set_enumerate_eq)

lemma nargsort_floats:
  assumes "\<forall>c\<in>set items. is_num c"
  shows "nargsort items ascending =
     Inr (map fst (order_by (\<lambda>(i, c). num_key c) ascending
            (filter (\<lambda>(i, c). \<not> isna c) (enumerate 0 items)))
          @ map fst (filter (\<lambda>(i, c). isna c) (enumerate 0 items)))"
proof -
  have "is_num (snd p)" if "p \<in> set (enumerate 0 items)" for p
    using assms enumerate_snd_mem [OF that] by blast
  then have "list_all (\<lambda>(i, c). is_num c) (filter (\<lambda>(i, c). \<not> isna c) (enumerate 0 items))"
    by (auto simp: list_all_iff)
  then show ?thesis
    by (simp add: nargsort_def)
qed

lemma filter_partition_mset:
  "mset (filter P xs) + mset (filter (\<lambda>x. \<not> P x) xs) = mset xs"
  by (induction xs) simp_all

lemma enumerate_lookup:
  assumes "set ps \<subseteq> set (enumerate 0 items)"
  shows "map (\<lambda>i. items ! i) (map fst ps) = map snd ps"
  using assms by (induction ps) (auto dest: enumerate_nth)

lemma snd_filter_enumerate:
  "map snd (filter (\<lambda>(i, c). P c) (enumerate n items)) = filter P items"
proof -
  have e: "filter (\<lambda>(i, c). P c) (enumerate n items) = filter (P \<circ> snd) (enumerate n items)"
    by (simp add: comp_def case_prod_unfold)
  have "map snd (filter (P \<circ> snd) (enumerate n items))
      = filter P (map snd (enumerate n items))"
    by (rule filter_map [symmetric])
  then show ?thesis
    unfolding e by (simp only: map_snd_enumerate)
qed

lemma cell_float_number: "is_num c \<Longrightarrow> \<not> isna c \<Longrightarrow> cell_float c = Finite (num_key c)"
  by (auto simp: is_num_def isna_def cell_float_def num_key_def split: cell.splits pyfloat.splits)

lemma cell_float_missing: "isna c \<Longrightarrow> cell_float c = NaN"
  by (auto simp: isna_def cell_float_def split: cell.splits pyfloat.splits)

lemma order_by_mset: "mset (order_by key ascending xs) = mset xs"
  by (simp add: order_by_def)

lemma sort_key_keys:
  assumes "mset ys = mset xs"
  shows "map key (sort_key key ys) = sort (map key xs)"
proof -
  have "mset (map key (sort_key key ys)) = mset (map key xs)"
    using assms by simp
  moreover have "sorted (map key (sort_key key ys))"
    by (rule sorted_sort_key)
  ultimately show ?thesis
    by (rule properties_for_sort [symmetric])
qed

lemma order_by_keys:
  "map key (order_by key ascending xs) =
     (if ascending then sort (map key xs) else rev (sort (map key xs)))"
proof (cases ascending)
  case True
  then show ?thesis
    by (simp add: order_by_def sort_key_keys [of xs xs])
next
  case False
  have "map key (sort_key key (rev xs)) = sort (map key xs)"
    by (rule sort_key_keys) simp
  with False show ?thesis
    by (simp add: order_by_def rev_map [symmetric])
qed

lemma nargsort_floats_keys:
  assumes "\<forall>c\<in>set items. is_num c"
  shows "\<exists>indexer. nargsort items ascending = Inr indexer \<and>
     mset indexer = mset [0..<length items] \<and>
     map (\<lambda>i. cell_float (items ! i)) indexer =
       nan_last
         (if ascending then sort (map num_key (filter (\<lambda>c. \<not> isna c) items))
          else rev (sort (map num_key (filter (\<lambda>c. \<not> isna c) items))))
         (length (filter isna items))"
proof -
  let ?E = "enumerate 0 items"
  let ?K = "\<lambda>(i :: nat, c). num_key c"
  let ?nn = "filter (\<lambda>(i, c). \<not> isna c) ?E"
  let ?na = "filter (\<lambda>(i, c). isna c) ?E"
  let ?ps = "order_by ?K ascending ?nn"
  let ?qs = "map num_key (filter (\<lambda>c. \<not> isna c) items)"
  have run: "nargsort items ascending = Inr (map fst ?ps @ map fst ?na)"
    by (rule nargsort_floats [OF assms])
  have m: "mset ?ps = mset ?nn"
    by (rule order_by_mset)
  then have s: "set ?ps = set ?nn"
    by (rule mset_eq_setD)
  have part: "mset ?nn + mset ?na = mset ?E"
    using filter_partition_mset [of "\<lambda>(i, c). \<not> isna c" ?E]
    by (simp add: case_prod_unfold)
  have "mset (map fst ?ps @ map fst ?na) = image_mset fst (mset ?ps + mset ?na)"
    by (simp only: mset_append mset_map image_mset_union)
  also have "\<dots> = image_mset fst (mset ?E)"
    by (simp only: m part)
  also have "\<dots> = mset (map fst ?E)"
    by (simp only: mset_map)
  also have "map fst ?E = [0..<length items]"
    by simp
  finally have perm: "mset (map fst ?ps @ map fst ?na) = mset [0..<length items]" .
  have sub: "set ?ps \<subseteq> set ?E" "set ?na \<subseteq> set ?E"
    using s by auto
  have num: "is_num (snd p)" if "p \<in> set ?E" for p
    using assms enumerate_snd_mem [OF that] by blast
  have l1: "map (\<lambda>i. cell_float (items ! i)) (map fst ?ps) = map cell_float (map snd ?ps)"
  proof -
    from enumerate_lookup [OF sub(1)]
    have "map cell_float (map (\<lambda>i. items ! i) (map fst ?ps)) = map cell_float (map snd ?ps)"
      by (rule arg_cong)
    then show ?thesis
      by (simp add: comp_def)
  qed
  have l2: "map (\<lambda>i. cell_float (items ! i)) (map fst ?na) = map cell_float (map snd ?na)"
  proof -
    from enumerate_lookup [OF sub(2)]
    have "map cell_float (map (\<lambda>i. items ! i) (map fst ?na)) = map cell_float (map snd ?na)"
      by (rule arg_cong)
    then show ?thesis
      by (simp add: comp_def)
  qed
  have cells: "map (\<lambda>i. cell_float (items ! i)) (map fst ?ps @ map fst ?na)
      = map cell_float (map snd ?ps) @ map cell_float (map snd ?na)"
    by (simp only: map_append l1 l2)
  have "map cell_float (map snd ?ps) = map Finite (map ?K ?ps)"
  proof -
    have "cell_float (snd p) = Finite (?K p)" if "p \<in> set ?ps" for p
    proof -
      from that s have "p \<in> set ?E" and "\<not> isna (snd p)"
        by (auto simp: case_prod_unfold)
      with num [of p] show ?thesis
        by (simp add: cell_float_number case_prod_unfold)
    qed
    then show ?thesis
      by simp
  qed
  also have "map ?K ?ps = (if ascending then sort (map ?K ?nn) else rev (sort (map ?K ?nn)))"
    by (rule order_by_keys)
  also have "map ?K ?nn = ?qs"
  proof -
    have "map ?K ?nn = map num_key (map snd ?nn)"
      by (simp only: map_map comp_def case_prod_unfold)
    then show ?thesis
      by (simp only: snd_filter_enumerate)
  qed
  finally have numbers: "map cell_float (map snd ?ps)
      = map Finite (if ascending then sort ?qs else rev (sort ?qs))" .
  have "length (map snd ?na) = length (filter isna items)"
    by (simp only: snd_filter_enumerate)
  then have len: "length ?na = length (filter isna items)"
    by simp
  have missing: "map cell_float (map snd ?na) = replicate (length (filter isna items)) NaN"
  proof -
    have "map cell_float (map snd ?na) = map (\<lambda>p. NaN) ?na"
      by (auto simp: cell_float_missing)
    also have "\<dots> = replicate (length ?na) NaN"
      by (rule map_replicate_const)
    finally show ?thesis
      unfolding len .
  qed
  have "map (\<lambda>i. cell_float (items ! i)) (map fst ?ps @ map fst ?na) =
      nan_last (if ascending then sort ?qs else rev (sort ?qs)) (length (filter isna items))"
    unfolding cells numbers missing nan_last_def ..
  with run perm show ?thesis
    by blast
qed

lemma sort_values_floats:
  assumes "sort_values df c ascending = Inr sorted_df"
    and "\<forall>r\<in>set (rows df). is_num (r c)"
  shows "\<exists>indexer. mset indexer = mset [0..<length (rows df)] \<and>
     rows sorted_df = map (\<lambda>i. rows df ! i) indexer \<and>
     map (\<lambda>r. cell_float (r c)) (rows sorted_df) =
       nan_last
         (if ascending
          then sort (map (\<lambda>r. num_key (r c)) (filter (\<lambda>r. \<not> isna (r c)) (rows df)))
          else rev (sort (map (\<lambda>r. num_key (r c)) (filter (\<lambda>r. \<not> isna (r c)) (rows df)))))
         (length (filter (\<lambda>r. isna (r c)) (rows df)))"
proof -
  let ?items = "map (\<lambda>r. r c) (rows df)"
  from assms(1) obtain indexer where
    n: "nargsort ?items ascending = Inr indexer" and
    sd: "sorted_df = take_rows df indexer"
    by (auto simp: sort_values_def getitem_def ebind_eq_Inr split: if_splits)
  have fl: "\<forall>x\<in>set ?items. is_num x"
    using assms(2) by auto
  have q: "map num_key (filter (\<lambda>c. \<not> isna c) ?items)
      = map (\<lambda>r. num_key (r c)) (filter (\<lambda>r. \<not> isna (r c)) (rows df))"
    by (simp add: filter_map comp_def)
  have l: "length (filter isna ?items) = length (filter (\<lambda>r. isna (r c)) (rows df))"
    by (simp add: filter_map comp_def)
  from nargsort_floats_keys [OF fl, of ascending] n have
    perm: "mset indexer = mset [0..<length (rows df)]" and
    keys: "map (\<lambda>i. cell_float (?items ! i)) indexer =
       nan_last
         (if ascending
          then sort (map (\<lambda>r. num_key (r c)) (filter (\<lambda>r. \<not> isna (r c)) (rows df)))
          else rev (sort (map (\<lambda>r. num_key (r c)) (filter (\<lambda>r. \<not> isna (r c)) (rows df)))))
         (length (filter (\<lambda>r. isna (r c)) (rows df)))"
    unfolding q l by auto
  from perm have "set indexer = set [0..<length (rows df)]"
    by (rule mset_eq_setD)
  then have range: "\<forall>i\<in>set indexer. i < length (rows df)"
    by auto
  have "map (\<lambda>r. cell_float (r c)) (rows sorted_df)
      = map (\<lambda>i. cell_float (?items ! i)) indexer"
    using range by (simp add: sd take_rows_def comp_def)
  with keys perm sd show ?thesis
    by (auto simp: take_rows_def comp_def)
qed

lemma sorted_rows_subset:
  assumes "mset indexer = mset [0..<length rs]"
  shows "set (map (\<lambda>i. rs ! i) indexer) \<subseteq> set rs" "length (map (\<lambda>i. rs ! i) indexer) = length rs"
proof -
  from assms have "set indexer = set [0..<length rs]"
    by (rule mset_eq_setD)
  then show "set (map (\<lambda>i. rs ! i) indexer) \<subseteq> set rs"
    by auto
  from assms have "length indexer = length [0..<length rs]"
    by (rule mset_eq_length)
  then show "length (map (\<lambda>i. rs ! i) indexer) = length rs"
    by simp
qed

lemma non_increasing_Finite: "non_increasing (map Finite qs) \<longleftrightarrow> sorted_wrt (\<ge>) qs"
  by (simp add: non_increasing_def sorted_wrt_map)

lemma non_decreasing_Finite: "non_decreasing (map Finite qs) \<longleftrightarrow> sorted qs"
  by (simp add: non_decreasing_def sorted_wrt_map)

lemma sorted_desc_take: "sorted_wrt (\<ge>) (take n (rev (sort (qs :: rat list))))"
proof -
  have "sorted_wrt (\<ge>) (rev (sort qs))"
    by (simp add: sorted_wrt_rev)
  then show ?thesis
    by (rule sorted_wrt_take)
qed

lemma sorted_desc_drop: "sorted_wrt (\<ge>) (drop n (rev (sort (qs :: rat list))))"
proof -
  have "sorted_wrt (\<ge>) (rev (sort qs))"
    by (simp add: sorted_wrt_rev)
  then show ?thesis
    by (rule sorted_wrt_drop)
qed

lemma take_nan_last:
  "k \<le> length qs \<or> m = 0 \<Longrightarrow> take k (nan_last qs m) = map Finite (take k qs)"
  by (auto simp: nan_last_def take_map)

lemma drop_nan_last: "drop k (nan_last qs 0) = map Finite (drop k qs)"
  by (simp add: nan_last_def drop_map)

lemma is_num_cell_float: "is_num c \<Longrightarrow> c = CNum (cell_float c)"
  by (cases c) (simp_all add: is_num_def cell_float_def)

section \<open>Properties of \<open>get_stock_ranking\<close>\<close>

lemma select_columns_rows: "select_columns df cols = Inr df' \<Longrightarrow> rows df' = rows df"
  by (auto simp: select_columns_def split: list.splits)

lemma ranking_try_Inr:
  assumes "get_stock_ranking_try L (Inr df) = Inr result"
  shows "\<exists>sorted_desc sorted_asc gainers losers.
     sort_values df k_pct False = Inr sorted_desc \<and>
     sort_values df k_pct True = Inr sorted_asc \<and>
     list_all2 (\<lambda>r j. ranking_entry L r = Inr j) (take 20 (rows sorted_desc)) gainers \<and>
     list_all2 (\<lambda>r j. ranking_entry L r = Inr j) (take 20 (rows sorted_asc)) losers \<and>
     result = JObj [(k_gainers, JArr gainers), (k_losers, JArr losers)]"
proof -
  from assms obtain sorted_desc sorted_asc df_rise gainers df_fall losers where
    s: "sort_values df k_pct False = Inr sorted_desc"
       "sort_values df k_pct True = Inr sorted_asc" and
    c: "select_columns (head sorted_desc 20) ranking_columns = Inr df_rise"
       "select_columns (head sorted_asc 20) ranking_columns = Inr df_fall" and
    e: "emap (ranking_entry L) (rows df_rise) = Inr gainers"
       "emap (ranking_entry L) (rows df_fall) = Inr losers" and
    r: "result = JObj [(k_gainers, JArr gainers), (k_losers, JArr losers)]"
    unfolding get_stock_ranking_try_def ebind_Inr ebind_eq_Inr by blast
  from c have "rows df_rise = take 20 (rows sorted_desc)" "rows df_fall = take 20 (rows sorted_asc)"
    by (simp_all add: select_columns_rows head_def)
  with e s r show ?thesis
    by (simp add: emap_eq_Inr)
qed

lemma ranking_sections:
  "section_entries k_gainers (Json (JObj [(k_gainers, JArr gainers), (k_losers, JArr losers)]))
     = gainers"
  "section_entries k_losers (Json (JObj [(k_gainers, JArr gainers), (k_losers, JArr losers)]))
     = losers"
  by (simp_all add: section_entries_def jget_def str_defs)

lemma ranking_row_pct:
  "jget k_pct (JObj [(k_code, a), (k_name, b), (k_price, c), (k_pct, d), (k_change, e),
     (k_volume, f), (k_amount, g)]) = Some d"
  by (simp add: jget_def str_defs)

lemma ranking_entry_pct:
  assumes "ranking_entry L r = Inr j" and "r k_pct = CNum x"
  shows "entry_pct j = x"
proof -
  from assms(1) obtain price pct change volume amount where
    p: "py_float L (r k_pct) = Inr pct" and
    j: "j = JObj [(k_code, json_of_cell (r k_code)), (k_name, json_of_cell (r k_name)),
         (k_price, JFloat price), (k_pct, JFloat pct), (k_change, JFloat change),
         (k_volume, JFloat volume), (k_amount, JFloat amount)]"
    unfolding ranking_entry_def ebind_eq_Inr by blast
  from p assms(2) have "pct = x"
    by (simp add: py_float_def)
  then show ?thesis
    unfolding j entry_pct_def ranking_row_pct by simp
qed

lemma ranking_entries_pct:
  assumes "list_all2 (\<lambda>r j. ranking_entry L r = Inr j) rs js"
    and "\<forall>r\<in>set rs. is_num (r k_pct)"
  shows "map entry_pct js = map (\<lambda>r. cell_float (r k_pct)) rs"
  using assms
proof (induction rs js rule: list_all2_induct)
  case Nil
  show ?case by simp
next
  case (Cons r rs j js)
  then have "r k_pct = CNum (cell_float (r k_pct))"
    by (simp add: is_num_cell_float)
  from ranking_entry_pct [OF Cons.hyps(1) this] Cons show ?case
    by simp
qed

lemma snapshot22_ranking_run:
  "get_stock_ranking_try exact_lib (Inr snapshot22) = Inr snapshot21_ranking"
  by code_simp

lemma snapshot22_floats: "\<forall>r\<in>set (rows snapshot22). is_num (r k_pct)"
  by code_simp

lemma snapshot22_numbers: "length (pct_numbers snapshot22) = 21" "pct_missing snapshot22 = 1"
  by code_simp+

text \<open>
  C3 as stated fails: a percent change can be missing (NaN). pandas sorts missing values
  last in both directions, so with twenty rows of which one has NaN the NaN row ends
  both sequences, and a sequence that contains NaN is neither non-increasing nor
  non-decreasing, since every comparison with NaN is false.
\<close>

theorem ranking_nan_counterexample:
  "length (rows snapshot20) = 20 \<and>
   length (section_entries k_gainers (get_stock_ranking exact_lib (Inr snapshot20))) = 20 \<and>
   last (map entry_pct (section_entries k_gainers (get_stock_ranking exact_lib (Inr snapshot20))))
     = NaN \<and>
   \<not> non_increasing (map entry_pct
       (section_entries k_gainers (get_stock_ranking exact_lib (Inr snapshot20)))) \<and>
   \<not> non_decreasing (map entry_pct
       (section_entries k_losers (get_stock_ranking exact_lib (Inr snapshot20))))"
  by code_simp

text \<open>
  C3, as the code has it. For a snapshot whose percent changes are floats, in a run that
  does not fall back: the gainers are the first twenty of the sequence that has the
  actual numbers in descending order and then the missing values (NaN), the losers the
  first twenty of the sequence that has the numbers in ascending order and then the
  missing values. So each sequence has twenty entries when the snapshot has at least
  twenty rows and as many entries as the snapshot has rows otherwise, and when at least
  twenty percent changes are actual numbers, or none is missing, the gainers are
  non-increasing and the losers non-decreasing.
\<close>

theorem ranking_sorted_top20:
  assumes "get_stock_ranking_try L (Inr df) = Inr result"
    and "\<forall>r\<in>set (rows df). is_num (r k_pct)"
  shows "get_stock_ranking L (Inr df) = Json result \<and>
    map entry_pct (section_entries k_gainers (Json result))
      = take 20 (nan_last (rev (sort (pct_numbers df))) (pct_missing df)) \<and>
    map entry_pct (section_entries k_losers (Json result))
      = take 20 (nan_last (sort (pct_numbers df)) (pct_missing df)) \<and>
    length (section_entries k_gainers (Json result)) = min 20 (length (rows df)) \<and>
    length (section_entries k_losers (Json result)) = min 20 (length (rows df)) \<and>
    (20 \<le> length (pct_numbers df) \<or> pct_missing df = 0 \<longrightarrow>
       non_increasing (map entry_pct (section_entries k_gainers (Json result))) \<and>
       non_decreasing (map entry_pct (section_entries k_losers (Json result))))"
proof -
  let ?qs = "pct_numbers df"
  let ?m = "pct_missing df"
  have top: "get_stock_ranking L (Inr df) = Json result"
    using assms(1) by (simp add: get_stock_ranking_def)
  from ranking_try_Inr [OF assms(1)] obtain sorted_desc sorted_asc gainers losers where
    sd: "sort_values df k_pct False = Inr sorted_desc" and
    sa: "sort_values df k_pct True = Inr sorted_asc" and
    g: "list_all2 (\<lambda>r j. ranking_entry L r = Inr j) (take 20 (rows sorted_desc)) gainers" and
    l: "list_all2 (\<lambda>r j. ranking_entry L r = Inr j) (take 20 (rows sorted_asc)) losers" and
    r: "result = JObj [(k_gainers, JArr gainers), (k_losers, JArr losers)]"
    by blast
  from sort_values_floats [OF sd assms(2)] obtain ixd where
    pd: "mset ixd = mset [0..<length (rows df)]" and
    rd: "rows sorted_desc = map (\<lambda>i. rows df ! i) ixd" and
    kd: "map (\<lambda>r. cell_float (r k_pct)) (rows sorted_desc) = nan_last (rev (sort ?qs)) ?m"
    unfolding pct_numbers_def pct_missing_def by auto
  from sort_values_floats [OF sa assms(2)] obtain ixa where
    pa: "mset ixa = mset [0..<length (rows df)]" and
    ra: "rows sorted_asc = map (\<lambda>i. rows df ! i) ixa" and
    ka: "map (\<lambda>r. cell_float (r k_pct)) (rows sorted_asc) = nan_last (sort ?qs) ?m"
    unfolding pct_numbers_def pct_missing_def by auto
  have "\<forall>r\<in>set (rows sorted_desc). is_num (r k_pct)"
    using sorted_rows_subset(1) [OF pd] assms(2) unfolding rd by blast
  then have numd: "\<forall>r\<in>set (take 20 (rows sorted_desc)). is_num (r k_pct)"
    using in_set_takeD by fast
  have "\<forall>r\<in>set (rows sorted_asc). is_num (r k_pct)"
    using sorted_rows_subset(1) [OF pa] assms(2) unfolding ra by blast
  then have numa: "\<forall>r\<in>set (take 20 (rows sorted_asc)). is_num (r k_pct)"
    using in_set_takeD by fast
  have gp: "map entry_pct gainers = take 20 (nan_last (rev (sort ?qs)) ?m)"
    by (simp only: ranking_entries_pct [OF g numd] take_map [symmetric] kd)
  have lp: "map entry_pct losers = take 20 (nan_last (sort ?qs) ?m)"
    by (simp only: ranking_entries_pct [OF l numa] take_map [symmetric] ka)
  have gl: "length gainers = min 20 (length (rows df))"
    using list_all2_lengthD [OF g] sorted_rows_subset(2) [OF pd] unfolding rd
    by (simp add: min.commute)
  have ll: "length losers = min 20 (length (rows df))"
    using list_all2_lengthD [OF l] sorted_rows_subset(2) [OF pa] unfolding ra
    by (simp add: min.commute)
  have ord: "non_increasing (map entry_pct gainers) \<and> non_decreasing (map entry_pct losers)"
    if c: "20 \<le> length ?qs \<or> ?m = 0"
  proof
    from c have "20 \<le> length (rev (sort ?qs)) \<or> ?m = 0"
      by simp
    from take_nan_last [OF this]
    show "non_increasing (map entry_pct gainers)"
      unfolding gp by (simp only: non_increasing_Finite sorted_desc_take)
    from c have "20 \<le> length (sort ?qs) \<or> ?m = 0"
      by simp
    from take_nan_last [OF this]
    show "non_decreasing (map entry_pct losers)"
      unfolding lp by (simp add: non_decreasing_Finite sorted_wrt_take)
  qed
  show ?thesis
    unfolding r ranking_sections
    using top [unfolded r] gp lp gl ll ord by (intro conjI impI) blast+
qed

theorem ranking_sorted_top20_witness:
  "get_stock_ranking_try exact_lib (Inr snapshot22) = Inr snapshot21_ranking \<and>
   length (rows snapshot22) = 22 \<and>
   length (pct_numbers snapshot22) = 21 \<and>
   pct_missing snapshot22 = 1 \<and>
   get_stock_ranking exact_lib (Inr snapshot22) = Json snapshot21_ranking \<and>
   non_increasing (map entry_pct (section_entries k_gainers (Json snapshot21_ranking))) \<and>
   non_decreasing (map entry_pct (section_entries k_losers (Json snapshot21_ranking))) \<and>
   length (section_entries k_gainers (Json snapshot21_ranking)) = 20 \<and>
   length (section_entries k_losers (Json snapshot21_ranking)) = 20"
proof -
  have n: "length (rows snapshot22) = 22"
    by code_simp
  note t = ranking_sorted_top20 [OF snapshot22_ranking_run snapshot22_floats]
  from t have a: "get_stock_ranking exact_lib (Inr snapshot22) = Json snapshot21_ranking"
    by (rule conjunct1)
  from t have d: "length (section_entries k_gainers (Json snapshot21_ranking))
        = min 20 (length (rows snapshot22))"
    and e: "length (section_entries k_losers (Json snapshot21_ranking))
        = min 20 (length (rows snapshot22))"
    and o: "20 \<le> length (pct_numbers snapshot22) \<or> pct_missing snapshot22 = 0 \<longrightarrow>
       non_increasing (map entry_pct (section_entries k_gainers (Json snapshot21_ranking))) \<and>
       non_decreasing (map entry_pct (section_entries k_losers (Json snapshot21_ranking)))"
    by blast+
  from o snapshot22_numbers(1) have
    b: "non_increasing (map entry_pct (section_entries k_gainers (Json snapshot21_ranking)))" and
    c: "non_decreasing (map entry_pct (section_entries k_losers (Json snapshot21_ranking)))"
    by simp_all
  from d e have "length (section_entries k_gainers (Json snapshot21_ranking)) = 20"
    "length (section_entries k_losers (Json snapshot21_ranking)) = 20"
    unfolding n by simp_all
  with a b c n snapshot22_ranking_run snapshot22_numbers show ?thesis
    by (intro conjI)
qed


section \<open>Properties of \<open>get_sector_performance\<close>\<close>

lemma sector_try_Inr:
  assumes "get_sector_performance_try L (Inr df0) = Inr result"
  shows "\<exists>df1 df best worst.
     select_columns df0 sector_columns = Inr df1 \<and>
     sort_values df1 k_pct False = Inr df \<and>
     list_all2 (\<lambda>r j. sector_entry L r = Inr j) (take 10 (rows df)) best \<and>
     list_all2 (\<lambda>r j. sector_entry L r = Inr j)
       (drop (length (rows df) - 10) (rows df)) worst \<and>
     result = JObj [(k_best_sectors, JArr best), (k_worst_sectors, JArr worst)]"
proof -
  from assms obtain df1 df best worst where
    c: "select_columns df0 sector_columns = Inr df1" and
    s: "sort_values df1 k_pct False = Inr df" and
    e: "emap (sector_entry L) (rows (head df 10)) = Inr best"
       "emap (sector_entry L) (rows (tail df 10)) = Inr worst" and
    r: "result = JObj [(k_best_sectors, JArr best), (k_worst_sectors, JArr worst)]"
    unfolding get_sector_performance_try_def ebind_Inr ebind_eq_Inr by blast
  from e have "list_all2 (\<lambda>r j. sector_entry L r = Inr j) (take 10 (rows df)) best"
    "list_all2 (\<lambda>r j. sector_entry L r = Inr j) (drop (length (rows df) - 10) (rows df)) worst"
    by (simp_all add: emap_eq_Inr head_def tail_def)
  with c s r show ?thesis
    by blast
qed

lemma sector_sections:
  "section_entries k_best_sectors
     (Json (JObj [(k_best_sectors, JArr best), (k_worst_sectors, JArr worst)])) = best"
  "section_entries k_worst_sectors
     (Json (JObj [(k_best_sectors, JArr best), (k_worst_sectors, JArr worst)])) = worst"
  by (simp_all add: section_entries_def jget_def str_defs)

lemma sector_row_fields:
  "jget k_pct (JObj [(k_sector_name, a), (k_price, b), (k_pct, c), (k_change, d),
     (k_up_count, e), (k_down_count, f)]) = Some c"
  "jget k_sector_name (JObj [(k_sector_name, a), (k_price, b), (k_pct, c), (k_change, d),
     (k_up_count, e), (k_down_count, f)]) = Some a"
  by (simp_all add: jget_def str_defs)

lemma sector_entry_fields:
  assumes "sector_entry L r = Inr j"
  shows "r k_pct = CNum x \<Longrightarrow> entry_pct j = x"
    and "jget k_sector_name j = Some (json_of_cell (r k_sector_name))"
proof -
  from assms obtain price pct change up down where
    p: "py_float L (r k_pct) = Inr pct" and
    j: "j = JObj [(k_sector_name, json_of_cell (r k_sector_name)),
         (k_price, JFloat price), (k_pct, JFloat pct), (k_change, JFloat change),
         (k_up_count, JInt up), (k_down_count, JInt down)]"
    unfolding sector_entry_def ebind_eq_Inr by blast
  show "jget k_sector_name j = Some (json_of_cell (r k_sector_name))"
    unfolding j by (rule sector_row_fields)
  show "entry_pct j = x" if "r k_pct = CNum x"
  proof -
    from p that have "pct = x"
      by (simp add: py_float_def)
    then show ?thesis
      unfolding j entry_pct_def sector_row_fields by simp
  qed
qed

lemma sector_entries_pct:
  assumes "list_all2 (\<lambda>r j. sector_entry L r = Inr j) rs js"
    and "\<forall>r\<in>set rs. is_num (r k_pct)"
  shows "map entry_pct js = map (\<lambda>r. cell_float (r k_pct)) rs"
  using assms
proof (induction rs js rule: list_all2_induct)
  case Nil
  show ?case by simp
next
  case (Cons r rs j js)
  then have "r k_pct = CNum (cell_float (r k_pct))"
    by (simp add: is_num_cell_float)
  from sector_entry_fields(1) [OF Cons.hyps(1) this] Cons show ?case
    by simp
qed

lemma take_drop_disjoint:
  assumes "distinct xs" and "k \<le> m"
  shows "set (take k xs) \<inter> set (drop m xs) = {}"
proof -
  from assms(1) have "distinct (take k xs @ drop k xs)"
    by simp
  then have "set (take k xs) \<inter> set (drop k xs) = {}"
    by (simp only: distinct_append)
  moreover have "set (drop m xs) \<subseteq> set (drop k xs)"
    using assms(2) by (rule set_drop_subset_set_drop)
  ultimately show ?thesis
    by blast
qed

lemma list_all2_right_mem:
  "list_all2 P xs ys \<Longrightarrow> y \<in> set ys \<Longrightarrow> \<exists>x\<in>set xs. P x y"
  by (induction xs ys rule: list_all2_induct) auto

lemma json_of_cell_inj: "json_of_cell a = json_of_cell b \<Longrightarrow> a = b"
  by (auto simp: json_of_cell_def split: cell.splits)

lemma sectors21_run:
  "get_sector_performance_try exact_lib (Inr sectors21) = Inr sectors21_performance"
  by code_simp

lemma sectors21_floats: "\<forall>r\<in>set (rows sectors21). is_num (r k_pct)"
  by code_simp

lemma sectors21_missing: "pct_missing sectors21 = 0"
  by code_simp

text \<open>
  C6 as stated fails for a table in which a percent change is missing: the NaN row is
  sorted last, so it is in both sequences of a table of three sectors, after the
  numbers, and a sequence with NaN in it is not ordered by percent change.
\<close>

theorem sector_nan_counterexample:
  "map entry_pct (section_entries k_best_sectors (get_sector_performance exact_lib (Inr sectors3)))
     = [Finite 2, Finite 1, NaN] \<and>
   \<not> non_increasing (map entry_pct
       (section_entries k_best_sectors (get_sector_performance exact_lib (Inr sectors3)))) \<and>
   \<not> non_increasing (map entry_pct
       (section_entries k_worst_sectors (get_sector_performance exact_lib (Inr sectors3))))"
  by code_simp

text \<open>
  C6, as the code has it. For a sector table whose percent changes are floats, in a run
  that does not fall back: the table is sorted descending by percent change with the
  missing values (NaN) last, the best sectors are the first ten rows and the worst
  sectors the last ten rows of the sorted table. The best sequence is non-increasing by
  percent change when at least ten percent changes are actual numbers or none is
  missing, the worst sequence when none is missing. With at least twenty sectors the
  two sequences take their rows from disjoint positions of the table (so they share no
  entry when the sector names are distinct).
\<close>

theorem sector_performance_sorted:
  assumes "get_sector_performance_try L (Inr df) = Inr result"
    and "\<forall>r\<in>set (rows df). is_num (r k_pct)"
  shows "get_sector_performance L (Inr df) = Json result \<and>
    map entry_pct (section_entries k_best_sectors (Json result))
      = take 10 (nan_last (rev (sort (pct_numbers df))) (pct_missing df)) \<and>
    map entry_pct (section_entries k_worst_sectors (Json result))
      = drop (length (rows df) - 10)
          (nan_last (rev (sort (pct_numbers df))) (pct_missing df)) \<and>
    (10 \<le> length (pct_numbers df) \<or> pct_missing df = 0 \<longrightarrow>
       non_increasing (map entry_pct (section_entries k_best_sectors (Json result)))) \<and>
    (pct_missing df = 0 \<longrightarrow>
       non_increasing (map entry_pct (section_entries k_worst_sectors (Json result)))) \<and>
    (\<exists>indexer. mset indexer = mset [0..<length (rows df)] \<and>
       list_all2 (\<lambda>i j. sector_entry L (rows df ! i) = Inr j) (take 10 indexer)
         (section_entries k_best_sectors (Json result)) \<and>
       list_all2 (\<lambda>i j. sector_entry L (rows df ! i) = Inr j)
         (drop (length (rows df) - 10) indexer)
         (section_entries k_worst_sectors (Json result)) \<and>
       (20 \<le> length (rows df) \<longrightarrow>
          set (take 10 indexer) \<inter> set (drop (length (rows df) - 10) indexer) = {})) \<and>
    (20 \<le> length (rows df) \<longrightarrow> distinct (map (\<lambda>r. r k_sector_name) (rows df)) \<longrightarrow>
       set (section_entries k_best_sectors (Json result))
         \<inter> set (section_entries k_worst_sectors (Json result)) = {})"
proof -
  let ?qs = "pct_numbers df"
  let ?m = "pct_missing df"
  let ?n = "length (rows df)"
  have top: "get_sector_performance L (Inr df) = Json result"
    using assms(1) by (simp add: get_sector_performance_def)
  from sector_try_Inr [OF assms(1)] obtain df1 sd best worst where
    c: "select_columns df sector_columns = Inr df1" and
    s: "sort_values df1 k_pct False = Inr sd" and
    b: "list_all2 (\<lambda>r j. sector_entry L r = Inr j) (take 10 (rows sd)) best" and
    w: "list_all2 (\<lambda>r j. sector_entry L r = Inr j)
       (drop (length (rows sd) - 10) (rows sd)) worst" and
    r: "result = JObj [(k_best_sectors, JArr best), (k_worst_sectors, JArr worst)]"
    by blast
  have r1: "rows df1 = rows df"
    using c by (rule select_columns_rows)
  from sort_values_floats [OF s] assms(2) obtain ix where
    perm: "mset ix = mset [0..<?n]" and
    rs: "rows sd = map (\<lambda>i. rows df ! i) ix" and
    ks: "map (\<lambda>r. cell_float (r k_pct)) (rows sd) = nan_last (rev (sort ?qs)) ?m"
    unfolding r1 pct_numbers_def pct_missing_def by auto
  have len: "length (rows sd) = ?n" and sub: "set (rows sd) \<subseteq> set (rows df)"
    using sorted_rows_subset [OF perm] unfolding rs by simp_all
  have lix: "length ix = ?n"
    using mset_eq_length [OF perm] by simp
  have dix: "distinct ix"
    using mset_eq_imp_distinct_iff [OF perm] by simp
  have six: "set ix = {0..<?n}"
    using mset_eq_setD [OF perm] by simp
  have nums: "\<forall>r\<in>set (rows sd). is_num (r k_pct)"
    using sub assms(2) by blast
  have numb: "\<forall>r\<in>set (take 10 (rows sd)). is_num (r k_pct)"
    using nums in_set_takeD by fast
  have numw: "\<forall>r\<in>set (drop (?n - 10) (rows sd)). is_num (r k_pct)"
    using nums in_set_dropD by fast
  have bp: "map entry_pct best = take 10 (nan_last (rev (sort ?qs)) ?m)"
    by (simp only: sector_entries_pct [OF b numb] take_map [symmetric] ks)
  have wp: "map entry_pct worst = drop (?n - 10) (nan_last (rev (sort ?qs)) ?m)"
    using sector_entries_pct [OF w [unfolded len] numw]
    by (simp only: drop_map [symmetric] ks)
  have bi: "non_increasing (map entry_pct best)" if "10 \<le> length ?qs \<or> ?m = 0"
  proof -
    from that have "10 \<le> length (rev (sort ?qs)) \<or> ?m = 0"
      by simp
    from take_nan_last [OF this] show ?thesis
      unfolding bp by (simp only: non_increasing_Finite sorted_desc_take)
  qed
  have wi: "non_increasing (map entry_pct worst)" if "?m = 0"
    unfolding wp that drop_nan_last non_increasing_Finite by (rule sorted_desc_drop)
  have bpos: "list_all2 (\<lambda>i j. sector_entry L (rows df ! i) = Inr j) (take 10 ix) best"
    using b unfolding rs take_map list_all2_map1 .
  have wpos: "list_all2 (\<lambda>i j. sector_entry L (rows df ! i) = Inr j) (drop (?n - 10) ix) worst"
    using w unfolding len unfolding rs drop_map list_all2_map1 .
  have disj: "set (take 10 ix) \<inter> set (drop (?n - 10) ix) = {}" if "20 \<le> ?n"
    using dix by (rule take_drop_disjoint) (use that in linarith)
  have names: "set best \<inter> set worst = {}"
    if n: "20 \<le> ?n" and d: "distinct (map (\<lambda>r. r k_sector_name) (rows df))"
  proof (rule ccontr)
    assume "set best \<inter> set worst \<noteq> {}"
    then obtain j where jb: "j \<in> set best" and jw: "j \<in> set worst"
      by blast
    from list_all2_right_mem [OF bpos jb] obtain i where i: "i \<in> set (take 10 ix)"
      and ei: "sector_entry L (rows df ! i) = Inr j"
      by blast
    from list_all2_right_mem [OF wpos jw] obtain i' where i': "i' \<in> set (drop (?n - 10) ix)"
      and ei': "sector_entry L (rows df ! i') = Inr j"
      by blast
    from sector_entry_fields(2) [OF ei] sector_entry_fields(2) [OF ei']
    have same: "(rows df ! i) k_sector_name = (rows df ! i') k_sector_name"
      by (simp add: json_of_cell_inj)
    from i i' six have "i < ?n" "i' < ?n"
      by (auto dest: in_set_takeD in_set_dropD)
    with same d have "i = i'"
      by (auto simp: distinct_conv_nth)
    with i i' disj [OF n] show False
      by blast
  qed
  have pos: "\<exists>indexer. mset indexer = mset [0..<?n] \<and>
       list_all2 (\<lambda>i j. sector_entry L (rows df ! i) = Inr j) (take 10 indexer) best \<and>
       list_all2 (\<lambda>i j. sector_entry L (rows df ! i) = Inr j) (drop (?n - 10) indexer) worst \<and>
       (20 \<le> ?n \<longrightarrow> set (take 10 indexer) \<inter> set (drop (?n - 10) indexer) = {})"
    using perm bpos wpos disj by blast
  show ?thesis
    unfolding r sector_sections
    using top [unfolded r] bp wp bi wi pos names by (intro conjI impI) assumption+
qed

theorem sector_performance_sorted_witness:
  "get_sector_performance_try exact_lib (Inr sectors21) = Inr sectors21_performance \<and>
   length (rows sectors21) = 21 \<and>
   pct_missing sectors21 = 0 \<and>
   distinct (map (\<lambda>r. r k_sector_name) (rows sectors21)) \<and>
   get_sector_performance exact_lib (Inr sectors21) = Json sectors21_performance \<and>
   non_increasing (map entry_pct
     (section_entries k_best_sectors (Json sectors21_performance))) \<and>
   non_increasing (map entry_pct
     (section_entries k_worst_sectors (Json sectors21_performance))) \<and>
   set (section_entries k_best_sectors (Json sectors21_performance))
     \<inter> set (section_entries k_worst_sectors (Json sectors21_performance)) = {}"
proof -
  have n: "length (rows sectors21) = 21"
    by (simp add: sectors21_def)
  have d: "distinct (map (\<lambda>r. r k_sector_name) (rows sectors21))"
    by code_simp
  note t = sector_performance_sorted [OF sectors21_run sectors21_floats]
  from t have a: "get_sector_performance exact_lib (Inr sectors21) = Json sectors21_performance"
    by (rule conjunct1)
  from t have "10 \<le> length (pct_numbers sectors21) \<or> pct_missing sectors21 = 0 \<longrightarrow>
      non_increasing (map entry_pct
        (section_entries k_best_sectors (Json sectors21_performance)))"
    by (elim conjE)
  with sectors21_missing have b: "non_increasing (map entry_pct
      (section_entries k_best_sectors (Json sectors21_performance)))"
    by simp
  from t have "pct_missing sectors21 = 0 \<longrightarrow> non_increasing (map entry_pct
      (section_entries k_worst_sectors (Json sectors21_performance)))"
    by (elim conjE)
  with sectors21_missing have c: "non_increasing (map entry_pct
      (section_entries k_worst_sectors (Json sectors21_performance)))"
    by simp
  from t have "20 \<le> length (rows sectors21) \<longrightarrow>
      distinct (map (\<lambda>r. r k_sector_name) (rows sectors21)) \<longrightarrow>
      set (section_entries k_best_sectors (Json sectors21_performance))
        \<inter> set (section_entries k_worst_sectors (Json sectors21_performance)) = {}"
    by (elim conjE)
  with n d have e: "set (section_entries k_best_sectors (Json sectors21_performance))
        \<inter> set (section_entries k_worst_sectors (Json sectors21_performance)) = {}"
    by simp
  from sectors21_run n sectors21_missing d a b c e show ?thesis
    by (intro conjI)
qed


section \<open>Numeric entries of the documents\<close>

















end
